theory Spec2Isabelle
  imports Main "HOL-Library.Word" "HOL-Library.Multiset" "HOL-Library.List_Lexorder"
begin

unbundle bit_operations_syntax

section \<open>Buffers, errors and JavaScript array access\<close>

text \<open>
  A Node.js \<open>Buffer\<close> is a sequence of unsigned bytes. A thrown exception is the
  \<open>Inl\<close> branch of a sum; the three constructors are the three exception classes the
  sources raise (\<open>TypeError\<close>, plain \<open>Error\<close>, and the \<open>AssertionError\<close> of
  \<open>assert\<close>), each with its message.
\<close>

type_synonym byte = "8 word"
type_synonym buffer = "byte list"

datatype error = TypeError string | Error string | AssertionError string

text \<open>Sequencing of computations that may throw: the first exception wins.\<close>

definition ebind :: "error + 'a \<Rightarrow> ('a \<Rightarrow> error + 'b) \<Rightarrow> error + 'b" where
  "ebind m f = (case m of Inl e \<Rightarrow> Inl e | Inr x \<Rightarrow> f x)"

text \<open>
  \<open>xs[i]\<close> in JavaScript: \<open>undefined\<close> (here \<open>None\<close>) outside the array, never an
  exception. The index is an integer because the sources compute \<open>length - 2\<close>.
\<close>

definition js_index :: "'a list \<Rightarrow> int \<Rightarrow> 'a option" where
  "js_index xs i = (if 0 \<le> i \<and> i < int (length xs) then Some (xs ! nat i) else None)"

text \<open>\<open>buf.slice(start, end)\<close> on a Buffer clamps both ends to the length.\<close>

definition slice :: "nat \<Rightarrow> nat \<Rightarrow> 'a list \<Rightarrow> 'a list" where
  "slice start stop xs = take (stop - start) (drop start xs)"

text \<open>
  \<open>Buffer.compare(a, b)\<close> and \<open>a.compare(b)\<close>: bytewise unsigned lexicographic
  comparison, a proper prefix being smaller; the result is \<open>-1\<close>, \<open>0\<close> or \<open>1\<close>.
\<close>

fun Buffer_compare :: "buffer \<Rightarrow> buffer \<Rightarrow> int" where
  "Buffer_compare [] [] = 0"
| "Buffer_compare [] (y # ys) = - 1"
| "Buffer_compare (x # xs) [] = 1"
| "Buffer_compare (x # xs) (y # ys) =
     (if x < y then - 1 else if y < x then 1 else Buffer_compare xs ys)"

text \<open>
  \<open>array.sort(Buffer.compare)\<close>: the array's elements in ascending order of the
  comparator. The engine's algorithm is not part of the repository; the model inserts
  one element at a time, in front of the first element that does not compare smaller.
\<close>

fun insert_sorted :: "buffer \<Rightarrow> buffer list \<Rightarrow> buffer list" where
  "insert_sorted x [] = [x]"
| "insert_sorted x (y # ys) =
     (if Buffer_compare x y \<le> 0 then x # y # ys else y # insert_sorted x ys)"

definition sort_buffers :: "buffer list \<Rightarrow> buffer list" where
  "sort_buffers xs = foldr insert_sorted xs []"

section \<open>Collaborators of taproot.ts and p2ns.ts\<close>

text \<open>
  \<open>taproot.ts\<close> and \<open>payments/p2ns.ts\<close> call code that is not part of the sources:
  \<open>bcrypto.sha256\<close>, the script codec \<open>bscript\<close>, \<open>varuint.encode\<close> and four
  functions of \<open>tiny-secp256k1\<close>. They are parameters of the model, collected in one
  record, and every theorem below holds for all of them. An argument that can be
  \<open>undefined\<close> or \<open>null\<close> at the call site is an \<open>option\<close>; a collaborator may
  throw (\<open>Inl\<close>), \<open>decompile\<close> and the point functions may return \<open>null\<close>
  (\<open>Inr None\<close>). A script element (\<open>StackElement = Buffer | number\<close>) is a
  \<open>chunk\<close>; \<open>ecc.isPoint\<close> and \<open>isCanonicalSchnorrSignature\<close> are applied to
  elements of decompiled scripts, so they take a chunk.
\<close>

datatype chunk = Op nat | Data buffer

record collaborators =
  bcrypto_sha256 :: "buffer \<Rightarrow> buffer"
  bscript_decompile :: "buffer option \<Rightarrow> error + chunk list option"
  bscript_compile :: "chunk list \<Rightarrow> buffer"
  bscript_isCanonicalSchnorrSignature :: "chunk \<Rightarrow> bool"
  varuint_encode :: "nat \<Rightarrow> buffer"
  ecc_isPoint :: "chunk \<Rightarrow> bool"
  ecc_pointAddScalar :: "buffer \<Rightarrow> buffer \<Rightarrow> error + buffer option"
  ecc_pointMultiply :: "buffer \<Rightarrow> buffer \<Rightarrow> error + buffer option"
  ecc_pointAdd :: "buffer option \<Rightarrow> buffer option \<Rightarrow> error + buffer option"

section \<open>taproot.ts: tagged hashes and key aggregation\<close>

definition EVEN_Y_COORD_PREFIX :: buffer where
  "EVEN_Y_COORD_PREFIX = [0x02]"

definition INITIAL_TAPSCRIPT_VERSION :: buffer where
  "INITIAL_TAPSCRIPT_VERSION = [0xc0]"

text \<open>\<open>Buffer.from(tag)\<close> for the ASCII tags the sources use.\<close>

definition Buffer_from :: "string \<Rightarrow> buffer" where
  "Buffer_from tag = map (\<lambda>c. of_nat (of_char c)) tag"

text \<open>
  \<open>taggedHash\<close>: SHA256 of the tag's hash twice, then the data. In \<open>taproot.ts\<close> the
  doubled tag hash is precomputed in \<open>TAGGED_HASH_PREFIXES\<close>; \<open>schnorrBip340.ts\<close>
  computes it on each call. The hash function is the first argument.
\<close>

definition taggedHash :: "(buffer \<Rightarrow> buffer) \<Rightarrow> string \<Rightarrow> buffer \<Rightarrow> buffer" where
  "taggedHash sha tag data = sha (sha (Buffer_from tag) @ sha (Buffer_from tag) @ data)"

text \<open>
  The \<open>map\<close> callback of \<open>aggregateMuSigPubkeys\<close>, element by element with its index:
  the key at index 1 keeps coefficient 1, every other key is multiplied by its
  \<open>KeyAgg coefficient\<close>. An exception of \<open>ecc.pointMultiply\<close> ends the call.
\<close>

fun tweakPubkeys ::
  "collaborators \<Rightarrow> buffer \<Rightarrow> nat \<Rightarrow> buffer list \<Rightarrow> error + buffer option list" where
  "tweakPubkeys L l index [] = Inr []"
| "tweakPubkeys L l index (pubkey # rest) =
     ebind
       (if index = 1 then Inr (Some (EVEN_Y_COORD_PREFIX @ pubkey))
        else ecc_pointMultiply L (EVEN_Y_COORD_PREFIX @ pubkey)
               (taggedHash (bcrypto_sha256 L) ''KeyAgg coefficient'' (l @ pubkey)))
       (\<lambda>tweaked. ebind (tweakPubkeys L l (Suc index) rest)
          (\<lambda>others. Inr (tweaked # others)))"

text \<open>\<open>reduce((prev, curr) => ecc.pointAdd(prev, curr))\<close> from the first element on.\<close>

fun reducePointAdd ::
  "collaborators \<Rightarrow> buffer option \<Rightarrow> buffer option list \<Rightarrow> error + buffer option" where
  "reducePointAdd L prev [] = Inr prev"
| "reducePointAdd L prev (cur # rest) =
     ebind (ecc_pointAdd L prev cur) (\<lambda>sum. reducePointAdd L sum rest)"

text \<open>
  \<open>aggregateMuSigPubkeys\<close> sorts the array it is given in place, so the model returns
  a pair: the caller's array after the call, and the result or exception of the call.
  The assertion comes before the sort. \<open>slice(1)\<close> on a \<open>null\<close> sum is a TypeError.
\<close>

definition aggregateMuSigPubkeys ::
  "collaborators \<Rightarrow> buffer list \<Rightarrow> buffer list \<times> (error + buffer)" where
  "aggregateMuSigPubkeys L pubkeys =
     (if \<not> length pubkeys > 1
      then (pubkeys,
            Inl (AssertionError ''at least two pubkeys are required for musig key aggregation''))
      else
        (let sorted = sort_buffers pubkeys;
             l = taggedHash (bcrypto_sha256 L) ''KeyAgg list'' (concat sorted)
         in (sorted,
             ebind (tweakPubkeys L l 0 sorted) (\<lambda>tweakedPubkeys.
               ebind (reducePointAdd L (hd tweakedPubkeys) (tl tweakedPubkeys))
                 (\<lambda>aggregatePubkey.
                    case aggregatePubkey of
                      None \<Rightarrow> Inl (TypeError ''Cannot read properties of null'')
                    | Some b \<Rightarrow> Inr (drop 1 b))))))"

section \<open>taproot.ts: leaf and branch hashes, tweaking, control blocks\<close>

definition serializeScriptSize :: "collaborators \<Rightarrow> buffer \<Rightarrow> buffer" where
  "serializeScriptSize L script = varuint_encode L (length script)"

definition hashTapLeaf :: "collaborators \<Rightarrow> buffer \<Rightarrow> buffer" where
  "hashTapLeaf L script =
     taggedHash (bcrypto_sha256 L) ''TapLeaf''
       (INITIAL_TAPSCRIPT_VERSION @ serializeScriptSize L script @ script)"

definition hashTapBranch :: "collaborators \<Rightarrow> buffer \<Rightarrow> buffer \<Rightarrow> buffer" where
  "hashTapBranch L child1 child2 =
     taggedHash (bcrypto_sha256 L) ''TapBranch'' (concat (sort_buffers [child1, child2]))"

record TweakedPubkey =
  parity :: nat
  pubkey :: buffer

definition tapTweakPubkey ::
  "collaborators \<Rightarrow> buffer \<Rightarrow> buffer option \<Rightarrow> error + TweakedPubkey" where
  "tapTweakPubkey L pk tapTreeRoot =
     (let tapTweak =
            (case tapTreeRoot of
               Some root \<Rightarrow> taggedHash (bcrypto_sha256 L) ''TapTweak'' (pk @ root)
             | None \<Rightarrow> taggedHash (bcrypto_sha256 L) ''TapTweak'' pk)
      in ebind (ecc_pointAddScalar L (EVEN_Y_COORD_PREFIX @ pk) tapTweak)
           (\<lambda>tweakedPubkey.
              case tweakedPubkey of
                None \<Rightarrow> Inl (TypeError ''Cannot read properties of null'')
              | Some t \<Rightarrow>
                  Inr \<lparr>parity = (if js_index t 0 = js_index EVEN_Y_COORD_PREFIX 0 then 0 else 1),
                       pubkey = drop 1 t\<rparr>))"

definition getControlBlock :: "nat \<Rightarrow> buffer \<Rightarrow> buffer list \<Rightarrow> buffer" where
  "getControlBlock par pk path =
     [of_nat ((0xc0 + par) mod 256)] @ pk @ concat path"

section \<open>taproot.ts: removing the annex\<close>

text \<open>
  \<open>removeAnnex\<close>: when the stack has at least two elements and the first byte of the
  last one is \<open>0x50\<close>, the stack without its last element; otherwise the stack itself.
  The first byte of an empty buffer is \<open>undefined\<close>, which is not \<open>0x50\<close>.
\<close>

definition last_first_byte :: "buffer list \<Rightarrow> byte option" where
  "last_first_byte witnessStack =
     (case js_index witnessStack (int (length witnessStack) - 1) of
        None \<Rightarrow> None
      | Some b \<Rightarrow> js_index b 0)"

definition removeAnnex :: "buffer list \<Rightarrow> buffer list" where
  "removeAnnex witnessStack =
     (if length witnessStack \<ge> 2 \<and> last_first_byte witnessStack = Some 0x50
      then slice 0 (length witnessStack - 1) witnessStack
      else witnessStack)"

section \<open>taproot.ts: parsing and checking a script-path witness\<close>

record TaprootWitness =
  tapscript :: "buffer option"
  controlBlock :: buffer
  taptreeDepth :: nat
  internalPubkey :: buffer
  leafVersion :: byte

text \<open>
  \<open>parseTaprootWitness\<close>, check by check in the order of the source. The tapscript is
  \<open>witnessStack[length - 2]\<close>, which is \<open>undefined\<close> on a stack of fewer than two
  elements and is handed to \<open>bscript.decompile\<close> as it is; reading \<open>.length\<close> of an
  \<open>undefined\<close> control block (empty stack) is a TypeError of the runtime.
\<close>

definition parseTaprootWitness :: "collaborators \<Rightarrow> buffer list \<Rightarrow> error + TaprootWitness" where
  "parseTaprootWitness L witnessStack =
     (let ts = js_index witnessStack (int (length witnessStack) - 2) in
      ebind (bscript_decompile L ts) (\<lambda>tapscriptChunks.
        if tapscriptChunks = None \<or> tapscriptChunks = Some []
        then Inl (Error ''tapscript is not a valid script'')
        else
          case js_index witnessStack (int (length witnessStack) - 1) of
            None \<Rightarrow> Inl (TypeError ''Cannot read properties of undefined'')
          | Some cb \<Rightarrow>
              if length cb < 33 \<or> length cb > 33 + 32 * 128 \<or> length cb mod 32 \<noteq> 1
              then Inl (Error ''invalid control block length'')
              else
                (let depth = length cb div 32 - 1;
                     ipk = slice 1 33 cb
                 in if \<not> ecc_isPoint L (Data (EVEN_Y_COORD_PREFIX @ ipk))
                    then Inl (Error ''internal pubkey is not an EC point'')
                    else
                      (let lv = (cb ! 0) AND 0xfe
                       in if lv = 0x50 then Inl (Error ''invalid leaf version'')
                          else Inr \<lparr>tapscript = ts, controlBlock = cb, taptreeDepth = depth,
                                    internalPubkey = ipk, leafVersion = lv\<rparr>))))"

text \<open>
  The \<open>for\<close> loop of \<open>isValidTapscript\<close>: \<open>j\<close> is the loop counter, the third
  argument the number of iterations left, \<open>node\<close> the last element of
  \<open>taptreePath\<close>.
\<close>

fun walkTaptreePath :: "collaborators \<Rightarrow> buffer \<Rightarrow> nat \<Rightarrow> nat \<Rightarrow> buffer \<Rightarrow> buffer" where
  "walkTaptreePath L cb j 0 node = node"
| "walkTaptreePath L cb j (Suc left) node =
     (let taptreeSiblingHash = slice (33 + 32 * j) (65 + 32 * j) cb;
          tapbranchHash =
            (if Buffer_compare node taptreeSiblingHash = - 1
             then taggedHash (bcrypto_sha256 L) ''TapBranch'' (node @ taptreeSiblingHash)
             else taggedHash (bcrypto_sha256 L) ''TapBranch'' (taptreeSiblingHash @ node))
      in walkTaptreePath L cb (Suc j) left tapbranchHash)"

text \<open>
  \<open>isValidTapscript\<close> calls the parser with no \<open>try\<close> around it, so an exception of
  the parser is an exception of \<open>isValidTapscript\<close>; so is one of
  \<open>ecc.pointAddScalar\<close>, and a \<open>null\<close> result of it (\<open>slice\<close> of \<open>null\<close>).
\<close>

definition isValidTapscript :: "collaborators \<Rightarrow> buffer list \<Rightarrow> buffer \<Rightarrow> error + bool" where
  "isValidTapscript L witnessStack witnessProgram =
     ebind (parseTaprootWitness L witnessStack) (\<lambda>w.
       case tapscript w of
         None \<Rightarrow> Inl (TypeError ''Cannot read properties of undefined'')
       | Some ts \<Rightarrow>
           (let tapleafHash =
                  taggedHash (bcrypto_sha256 L) ''TapLeaf''
                    ([leafVersion w] @ serializeScriptSize L ts @ ts);
                root = walkTaptreePath L (controlBlock w) 0 (taptreeDepth w) tapleafHash;
                tapTweak =
                  taggedHash (bcrypto_sha256 L) ''TapTweak'' (internalPubkey w @ root)
            in ebind (ecc_pointAddScalar L (EVEN_Y_COORD_PREFIX @ internalPubkey w) tapTweak)
                 (\<lambda>taprootPubkey.
                    case taprootPubkey of
                      None \<Rightarrow> Inl (TypeError ''Cannot read properties of null'')
                    | Some t \<Rightarrow> Inr (Buffer_compare witnessProgram (drop 1 t) = 0))))"

text \<open>\<open>isScriptPathSpend\<close> is the caller that catches: \<open>true\<close> iff the parser returns.\<close>

definition isScriptPathSpend :: "collaborators \<Rightarrow> buffer list \<Rightarrow> bool" where
  "isScriptPathSpend L chunks =
     (case parseTaprootWitness L chunks of Inl e \<Rightarrow> False | Inr w \<Rightarrow> True)"

section \<open>taproot.ts: the Huffman taptree\<close>

text \<open>
  A queue entry: a tagged hash, its weight, and the paths it carries, keyed by the index
  of the script (\<open>paths: { [index]: [] }\<close>). Weights are modelled as integers; an
  entry of \<open>weights\<close> is \<open>None\<close> where the array holds \<open>undefined\<close>.
\<close>

record WeightedTapScript =
  wts_taggedHash :: buffer
  weight :: int
  paths :: "(nat \<times> buffer list) list"

record Taptree =
  root :: buffer
  tree_paths :: "buffer list option list"

text \<open>
  \<open>FastPriorityQueue\<close> is an external package. Its contract is a minimum priority
  queue under the comparator \<open>a.weight < b.weight\<close>; the order among entries of equal
  weight is the package's own. The model keeps the entries in a list, \<open>add\<close> appends and
  \<open>poll\<close> removes the first entry that no other entry is smaller than.
\<close>

definition queue_add :: "WeightedTapScript \<Rightarrow> WeightedTapScript list \<Rightarrow> WeightedTapScript list"
  where "queue_add x q = q @ [x]"

fun queue_min :: "WeightedTapScript \<Rightarrow> WeightedTapScript list \<Rightarrow> WeightedTapScript" where
  "queue_min m [] = m"
| "queue_min m (x # xs) = queue_min (if weight x < weight m then x else m) xs"

fun remove_first :: "WeightedTapScript \<Rightarrow> WeightedTapScript list \<Rightarrow> WeightedTapScript list"
  where
  "remove_first m [] = []"
| "remove_first m (x # xs) = (if x = m then xs else x # remove_first m xs)"

definition queue_poll ::
  "WeightedTapScript list \<Rightarrow> (WeightedTapScript \<times> WeightedTapScript list) option" where
  "queue_poll q =
     (case q of [] \<Rightarrow> None
      | x # xs \<Rightarrow> (let m = queue_min x xs in Some (m, remove_first m q)))"

text \<open>
  \<open>weights[index] || 1\<close>: the right operand is taken whenever the left one is falsy,
  that is when it is \<open>undefined\<close> (also past the end of the array) and when it is
  \<open>0\<close>.
\<close>

definition weight_or_1 :: "int option list \<Rightarrow> nat \<Rightarrow> int" where
  "weight_or_1 weights index =
     (case js_index weights (int index) of
        Some (Some w) \<Rightarrow> (if w = 0 then 1 else w)
      | _ \<Rightarrow> 1)"

text \<open>The \<open>forEach\<close> that fills the queue; a failed \<open>assert\<close> ends the call.\<close>

fun fillQueue ::
  "collaborators \<Rightarrow> int option list \<Rightarrow> nat \<Rightarrow> buffer list \<Rightarrow> WeightedTapScript list \<Rightarrow>
   error + WeightedTapScript list" where
  "fillQueue L weights index [] queue = Inr queue"
| "fillQueue L weights index (script # rest) queue =
     (let w = weight_or_1 weights index
      in if \<not> w > 0 then Inl (AssertionError ''script weight must be a positive value'')
         else fillQueue L weights (Suc index) rest
                (queue_add \<lparr>wts_taggedHash = hashTapLeaf L script, weight = w,
                            paths = [(index, [])]\<rparr> queue))"

definition push_all :: "buffer \<Rightarrow> (nat \<times> buffer list) list \<Rightarrow> (nat \<times> buffer list) list" where
  "push_all h ps = map (\<lambda>(i, path). (i, path @ [h])) ps"

text \<open>One iteration of the \<open>while\<close> loop: two polls, the two pushes, one add.\<close>

definition mergeStep :: "collaborators \<Rightarrow> WeightedTapScript list \<Rightarrow> WeightedTapScript list" where
  "mergeStep L queue =
     (case queue_poll queue of
        None \<Rightarrow> queue
      | Some (child1, q1) \<Rightarrow>
          (case queue_poll q1 of
             None \<Rightarrow> queue
           | Some (child2, q2) \<Rightarrow>
               queue_add
                 \<lparr>wts_taggedHash = hashTapBranch L (wts_taggedHash child1) (wts_taggedHash child2),
                  weight = weight child1 + weight child2,
                  paths = push_all (wts_taggedHash child2) (paths child1) @
                          push_all (wts_taggedHash child1) (paths child2)\<rparr>
                 q2))"

text \<open>Each poll takes one entry out, so an iteration shortens the queue by one.\<close>

lemma queue_min_mem: "queue_min m xs \<in> set (m # xs)"
  by (induction xs arbitrary: m) auto

lemma length_remove_first:
  "m \<in> set q \<Longrightarrow> Suc (length (remove_first m q)) = length q"
  by (induction q) auto

lemma queue_poll_length:
  "queue_poll q = Some (m, q') \<Longrightarrow> Suc (length q') = length q"
proof (cases q)
  case Nil
  assume "queue_poll q = Some (m, q')"
  with Nil show ?thesis by (simp add: queue_poll_def)
next
  case (Cons x xs)
  assume "queue_poll q = Some (m, q')"
  with Cons have m: "m = queue_min x xs" and q': "q' = remove_first m q"
    by (auto simp add: queue_poll_def Let_def)
  from m Cons have "m \<in> set q"
    using queue_min_mem [of x xs] by simp
  with q' show ?thesis
    by (simp add: length_remove_first)
qed

lemma queue_poll_None: "(queue_poll q = None) = (q = [])"
  by (cases q) (simp_all add: queue_poll_def Let_def)

lemma mergeStep_length:
  assumes "length q > 1"
  shows "Suc (length (mergeStep L q)) = length q"
proof -
  from assms obtain c1 q1 where p1: "queue_poll q = Some (c1, q1)"
    using queue_poll_None [of q] by (cases "queue_poll q") auto
  then have l1: "Suc (length q1) = length q"
    by (rule queue_poll_length)
  with assms have "q1 \<noteq> []" by auto
  then obtain c2 q2 where p2: "queue_poll q1 = Some (c2, q2)"
    using queue_poll_None [of q1] by (cases "queue_poll q1") auto
  then have l2: "Suc (length q2) = length q1"
    by (rule queue_poll_length)
  from p1 p2 l1 l2 show ?thesis
    by (simp add: mergeStep_def queue_add_def)
qed

text \<open>\<open>while (queue.size > 1)\<close>.\<close>

function huffmanLoop :: "collaborators \<Rightarrow> WeightedTapScript list \<Rightarrow> WeightedTapScript list" where
  "huffmanLoop L queue =
     (if length queue > 1 then huffmanLoop L (mergeStep L queue) else queue)"
  by pat_completeness auto
termination
proof (relation "measure (\<lambda>(L, q). length q)")
  show "wf (measure (\<lambda>(L, q). length q))" by simp
next
  fix L :: collaborators and queue :: "WeightedTapScript list"
  assume "1 < length queue"
  then have "Suc (length (mergeStep L queue)) = length queue"
    by (rule mergeStep_length)
  then show "((L, mergeStep L queue), (L, queue)) \<in> measure (\<lambda>(L, q). length q)"
    by simp
qed

text \<open>
  \<open>getHuffmanTaptree\<close>: the assertion on the number of scripts, the queue, the loop,
  and the root's paths written into \<open>Array(scripts.length)\<close> at their indices (a slot
  no path was written to stays empty, \<open>None\<close>).
\<close>

definition getHuffmanTaptree ::
  "collaborators \<Rightarrow> buffer list \<Rightarrow> int option list \<Rightarrow> error + Taptree" where
  "getHuffmanTaptree L scripts weights =
     (if \<not> length scripts > 0
      then Inl (AssertionError ''at least one script is required to construct a tap tree'')
      else ebind (fillQueue L weights 0 scripts []) (\<lambda>queue.
        case queue_poll (huffmanLoop L queue) of
          None \<Rightarrow> Inl (TypeError ''Cannot read properties of undefined'')
        | Some (rootNode, q') \<Rightarrow>
            Inr \<lparr>root = wts_taggedHash rootNode,
                 tree_paths = map (\<lambda>i. map_of (paths rootNode) i) [0..<length scripts]\<rparr>))"

section \<open>payments/p2ns.ts\<close>

text \<open>
  The opcode numbers of \<open>bscript.OPS\<close> that \<open>p2ns.ts\<close> uses (the table itself is
  not among the sources; these are Bitcoin's values).
\<close>

definition OP_0 :: nat where "OP_0 = 0"
definition OP_CHECKSIG :: nat where "OP_CHECKSIG = 172"
definition OP_CHECKSIGVERIFY :: nat where "OP_CHECKSIGVERIFY = 173"

text \<open>
  The argument \<open>a\<close> of \<open>p2ns\<close>: every property is optional, \<open>None\<close> is an absent
  property. Buffers and arrays are truthy in JavaScript, so \<open>!a.input\<close> holds exactly
  when the property is absent.
\<close>

record Payment =
  a_network :: "string option"
  a_output :: "buffer option"
  a_input :: "buffer option"
  a_pubkeys :: "chunk list option"
  a_signatures :: "chunk list option"
  a_n :: "nat option"
  a_witness :: "buffer list option"
  a_name :: "string option"

record PaymentOpts =
  validate :: "bool option"
  allowIncomplete :: "bool option"

text \<open>
  The object \<open>p2ns\<close> returns has lazy properties: a property that \<open>a\<close> does not
  supply is computed when it is read, and that computation can throw where it decompiles
  a script. The model returns the value each property has when read after the call.
\<close>

record PaymentObject =
  o_network :: string
  o_output :: "buffer option"
  o_input :: "buffer option"
  o_pubkeys :: "error + chunk list option"
  o_signatures :: "error + chunk list option"
  o_n :: "error + nat option"
  o_witness :: "buffer list option"
  o_name :: "error + string option"

definition BITCOIN_NETWORK :: string where
  "BITCOIN_NETWORK = ''bitcoin''"

text \<open>
  \<open>stacksEqual\<close>: equal lengths, then \<open>x.equals(b[i])\<close> for each element until one
  is \<open>false\<close>. \<open>equals\<close> exists on Buffers only and accepts Buffers only; on a
  number either way the runtime throws a TypeError.
\<close>

fun everyEquals :: "chunk list \<Rightarrow> chunk list \<Rightarrow> error + bool" where
  "everyEquals [] b = Inr True"
| "everyEquals (Op x # xs) b = Inl (TypeError ''x.equals is not a function'')"
| "everyEquals (Data x # xs) [] = Inl (TypeError ''argument must be a Buffer'')"
| "everyEquals (Data x # xs) (Op y # ys) = Inl (TypeError ''argument must be a Buffer'')"
| "everyEquals (Data x # xs) (Data y # ys) = (if x = y then everyEquals xs ys else Inr False)"

definition stacksEqual :: "chunk list \<Rightarrow> chunk list \<Rightarrow> error + bool" where
  "stacksEqual a b = (if length a \<noteq> length b then Inr False else everyEquals a b)"

text \<open>
  \<open>isAcceptableSignature\<close>. The source compares \<open>(opts.allowIncomplete && x === OP_0)\<close>
  with \<open>undefined\<close>: that operand is \<open>undefined\<close> only when \<open>allowIncomplete\<close> is
  absent; when it is \<open>false\<close> the operand is \<open>false\<close>, when it is \<open>true\<close> the
  operand is a boolean, and both differ from \<open>undefined\<close>.
\<close>

definition isAcceptableSignature :: "collaborators \<Rightarrow> PaymentOpts \<Rightarrow> chunk \<Rightarrow> bool" where
  "isAcceptableSignature L opts x =
     (bscript_isCanonicalSchnorrSignature L x \<or> allowIncomplete opts \<noteq> None)"

text \<open>\<open>chunks.filter((_, index) => index % 2 === 0)\<close>.\<close>

fun evenIndexed :: "'a list \<Rightarrow> 'a list" where
  "evenIndexed [] = []"
| "evenIndexed [x] = [x]"
| "evenIndexed (x # y # rest) = x # evenIndexed rest"

text \<open>
  The chunks of the \<open>output\<close> property: each key followed by \<open>OP_CHECKSIGVERIFY\<close>,
  the last one by \<open>OP_CHECKSIG\<close>.
\<close>

fun outputChunks :: "chunk list \<Rightarrow> chunk list" where
  "outputChunks [] = []"
| "outputChunks [pk] = [pk, Op OP_CHECKSIG]"
| "outputChunks (pk # rest) = pk # Op OP_CHECKSIGVERIFY # outputChunks rest"

text \<open>\<open>decode\<close>: \<open>chunks.filter\<close> on a \<open>null\<close> result of decompile is a TypeError.\<close>

definition decode :: "collaborators \<Rightarrow> buffer \<Rightarrow> error + chunk list" where
  "decode L out =
     ebind (bscript_decompile L (Some out)) (\<lambda>r.
       case r of
         None \<Rightarrow> Inl (TypeError ''Cannot read properties of null'')
       | Some chunks \<Rightarrow> Inr chunks)"

text \<open>Decimal digits of a number, for the template string of \<open>name\<close>.\<close>

function decimal :: "nat \<Rightarrow> string" where
  "decimal k =
     (if k < 10 then [char_of (48 + k)]
      else decimal (k div 10) @ [char_of (48 + k mod 10)])"
  by pat_completeness auto
termination
  by (relation "measure id") auto

declare decimal.simps [simp del]

text \<open>The lazy properties, as read from the returned object (after \<open>Object.assign(o, a)\<close>).\<close>

definition read_output :: "collaborators \<Rightarrow> Payment \<Rightarrow> buffer option" where
  "read_output L a =
     (case a_output a of
        Some out \<Rightarrow> Some out
      | None \<Rightarrow> map_option (\<lambda>pks. bscript_compile L (outputChunks pks)) (a_pubkeys a))"

definition read_pubkeys :: "collaborators \<Rightarrow> Payment \<Rightarrow> error + chunk list option" where
  "read_pubkeys L a =
     (case a_pubkeys a of
        Some pks \<Rightarrow> Inr (Some pks)
      | None \<Rightarrow>
          (case a_output a of
             None \<Rightarrow> Inr None
           | Some out \<Rightarrow> ebind (decode L out) (\<lambda>chunks. Inr (Some (evenIndexed chunks)))))"

definition read_n :: "collaborators \<Rightarrow> Payment \<Rightarrow> error + nat option" where
  "read_n L a =
     (case a_n a of
        Some k \<Rightarrow> Inr (Some k)
      | None \<Rightarrow> ebind (read_pubkeys L a) (\<lambda>pks. Inr (map_option length pks)))"

definition read_signatures :: "collaborators \<Rightarrow> Payment \<Rightarrow> error + chunk list option" where
  "read_signatures L a =
     (case a_signatures a of
        Some sigs \<Rightarrow> Inr (Some sigs)
      | None \<Rightarrow>
          (case a_input a of
             None \<Rightarrow> Inr None
           | Some i \<Rightarrow> bscript_decompile L (Some i)))"

definition read_input :: "collaborators \<Rightarrow> Payment \<Rightarrow> buffer option" where
  "read_input L a =
     (case a_input a of
        Some i \<Rightarrow> Some i
      | None \<Rightarrow> map_option (bscript_compile L) (a_signatures a))"

definition read_witness :: "collaborators \<Rightarrow> Payment \<Rightarrow> buffer list option" where
  "read_witness L a =
     (case a_witness a of
        Some w \<Rightarrow> Some w
      | None \<Rightarrow> (case read_input L a of None \<Rightarrow> None | Some i \<Rightarrow> Some []))"

definition read_name :: "collaborators \<Rightarrow> Payment \<Rightarrow> error + string option" where
  "read_name L a =
     (case a_name a of
        Some s \<Rightarrow> Inr (Some s)
      | None \<Rightarrow>
          ebind (read_n L a) (\<lambda>k.
            case k of
              None \<Rightarrow> Inr None
            | Some m \<Rightarrow> Inr (if m = 0 then None else Some (''p2ns('' @ decimal m @ '')''))))"

definition paymentObject :: "collaborators \<Rightarrow> Payment \<Rightarrow> PaymentObject" where
  "paymentObject L a =
     \<lparr>o_network = (case a_network a of Some nw \<Rightarrow> nw | None \<Rightarrow> BITCOIN_NETWORK),
      o_output = read_output L a,
      o_input = read_input L a,
      o_pubkeys = read_pubkeys L a,
      o_signatures = read_signatures L a,
      o_n = read_n L a,
      o_witness = read_witness L a,
      o_name = read_name L a\<rparr>"

text \<open>
  The \<open>typef\<close> call: the supplied \<open>pubkeys\<close> must all satisfy \<open>ecc.isPoint\<close> and the
  supplied \<open>signatures\<close> must all satisfy \<open>isAcceptableSignature\<close>. (That the
  other properties are Buffers is their type here.)
\<close>

definition typef :: "collaborators \<Rightarrow> PaymentOpts \<Rightarrow> Payment \<Rightarrow> error + unit" where
  "typef L opts a =
     (if \<not> (case a_pubkeys a of None \<Rightarrow> True | Some pks \<Rightarrow> list_all (ecc_isPoint L) pks)
      then Inl (TypeError ''Expected property pubkeys of type ?Array<isPoint>'')
      else if \<not> (case a_signatures a of None \<Rightarrow> True
                  | Some sigs \<Rightarrow> list_all (isAcceptableSignature L opts) sigs)
      then Inl (TypeError ''Expected property signatures of type ?Array<isAcceptableSignature>'')
      else Inr ())"

text \<open>
  The block \<open>if (a.output) { ... }\<close> of the extended validation. Its result is the
  value of \<open>o.pubkeys\<close> after \<open>decode\<close>. \<open>typef.Number(chunks[0])\<close> holds when the
  first chunk is a number.
\<close>

definition isNumber :: "chunk option \<Rightarrow> bool" where
  "isNumber c = (case c of Some (Op k) \<Rightarrow> True | _ \<Rightarrow> False)"

definition validateOutput :: "collaborators \<Rightarrow> Payment \<Rightarrow> buffer \<Rightarrow> error + chunk list" where
  "validateOutput L a out =
     ebind (decode L out) (\<lambda>chunks.
       let pks = evenIndexed chunks in
       if \<not> isNumber (js_index chunks 0) then Inl (TypeError ''Output is invalid'')
       else if js_index chunks (int (length chunks) - 1) \<noteq> Some (Op OP_CHECKSIG)
       then Inl (TypeError ''Output is invalid'')
       else if length pks > 16 \<or> 2 * length pks \<noteq> length chunks
       then Inl (TypeError ''Output is invalid'')
       else if \<not> list_all (ecc_isPoint L) pks then Inl (TypeError ''Output is invalid'')
       else
         (case a_pubkeys a of
            None \<Rightarrow> Inr pks
          | Some apks \<Rightarrow>
              ebind (stacksEqual apks pks) (\<lambda>eq.
                if \<not> eq then Inl (TypeError ''Pubkeys mismatch'') else Inr pks)))"

text \<open>
  The block \<open>if (a.signatures) { ... }\<close>; \<open>k\<close> is \<open>o.n\<close>. A comparison of a number
  with \<open>undefined\<close> is \<open>false\<close>.
\<close>

definition validateSignatureCount :: "nat option \<Rightarrow> chunk list \<Rightarrow> error + unit" where
  "validateSignatureCount k sigs =
     (case k of
        None \<Rightarrow> Inr ()
      | Some m \<Rightarrow>
          if length sigs < m then Inl (TypeError ''Not enough signatures provided'')
          else if length sigs > m then Inl (TypeError ''Too many signatures provided'')
          else Inr ())"

text \<open>
  The block \<open>if (a.input) { ... }\<close>. \<open>o.signatures\<close> is read through its lazy
  property; the last test reads \<open>a.signatures.length\<close> whether or not
  \<open>a.signatures\<close> is present.
\<close>

definition validateInput ::
  "collaborators \<Rightarrow> PaymentOpts \<Rightarrow> Payment \<Rightarrow> nat option \<Rightarrow> buffer \<Rightarrow> error + unit" where
  "validateInput L opts a k i =
     ebind (bscript_decompile L (Some i)) (\<lambda>r.
       case r of
         None \<Rightarrow> Inl (TypeError ''Cannot read properties of null'')
       | Some osigs \<Rightarrow>
           if length osigs = 0 \<or> \<not> list_all (isAcceptableSignature L opts) osigs
           then Inl (TypeError ''Input has invalid signature(s)'')
           else
             (case a_signatures a of
                None \<Rightarrow> Inl (TypeError ''Cannot read properties of undefined'')
              | Some sigs \<Rightarrow>
                  ebind (stacksEqual sigs osigs) (\<lambda>eq.
                    if \<not> eq then Inl (TypeError ''Signature mismatch'')
                    else if k \<noteq> Some (length sigs)
                    then Inl (TypeError ''Signature count mismatch'')
                    else Inr ())))"

text \<open>
  \<open>p2ns(a, opts)\<close>. \<open>validate\<close> defaults to \<open>true\<close>. In the validation, \<open>o.n\<close> is
  the number of decoded keys when only the output is given, and is set to
  \<open>a.pubkeys.length\<close> when \<open>a.pubkeys\<close> is given.
\<close>

definition p2ns :: "collaborators \<Rightarrow> Payment \<Rightarrow> PaymentOpts \<Rightarrow> error + PaymentObject" where
  "p2ns L a opts =
     (if a_input a = None \<and> a_output a = None \<and> a_pubkeys a = None \<and> a_signatures a = None
      then Inl (TypeError ''Not enough data'')
      else
        ebind (typef L opts a) (\<lambda>u.
          if validate opts = Some False then Inr (paymentObject L a)
          else
            ebind (case a_output a of
                     None \<Rightarrow> Inr None
                   | Some out \<Rightarrow> ebind (validateOutput L a out) (\<lambda>pks. Inr (Some pks)))
              (\<lambda>decoded.
                 let k = (case a_pubkeys a of
                            Some apks \<Rightarrow> Some (length apks)
                          | None \<Rightarrow> map_option length decoded)
                 in ebind (case a_signatures a of
                             None \<Rightarrow> Inr ()
                           | Some sigs \<Rightarrow> validateSignatureCount k sigs)
                      (\<lambda>u1.
                         ebind (case a_input a of
                                  None \<Rightarrow> Inr ()
                                | Some i \<Rightarrow> validateInput L opts a k i)
                           (\<lambda>u2. Inr (paymentObject L a))))))"

text \<open>
  A call with no options, and the argument with no property at all (to be updated with
  the properties a caller supplies).
\<close>

definition noOpts :: PaymentOpts where
  "noOpts = \<lparr>validate = None, allowIncomplete = None\<rparr>"

definition noPayment :: Payment where
  "noPayment =
     \<lparr>a_network = None, a_output = None, a_input = None, a_pubkeys = None,
      a_signatures = None, a_n = None, a_witness = None, a_name = None\<rparr>"

section \<open>schnorrBip340.ts: collaborators\<close>

text \<open>
  \<open>schnorrBip340.ts\<close> takes its hash from Node's \<open>crypto\<close> and its curve from the
  \<open>elliptic\<close> package (\<open>new EC('secp256k1')\<close>): the group order \<open>curve.n\<close>, the
  generator \<open>curve.g\<close>, point multiplication and addition, and \<open>pointFromX\<close>, which
  throws when no point has the given x-coordinate. These are parameters of the model. A
  point is the point at infinity or a pair of coordinates; big numbers (\<open>bn.js\<close>) are
  integers.
\<close>

datatype point = Infinity | Point int int

record elliptic =
  crypto_sha256 :: "buffer \<Rightarrow> buffer"
  curve_n :: int
  curve_g :: point
  point_mul :: "point \<Rightarrow> int \<Rightarrow> point"
  point_add :: "point \<Rightarrow> point \<Rightarrow> point"
  curve_pointFromX :: "int \<Rightarrow> bool \<Rightarrow> error + point"

section \<open>schnorrBip340.ts: constants and conversions\<close>

definition ZERO32 :: buffer where
  "ZERO32 = replicate 32 0"

definition EC_GROUP_ORDER :: buffer where
  "EC_GROUP_ORDER = [
      0xff, 0xff, 0xff, 0xff, 0xff, 0xff, 0xff, 0xff,
      0xff, 0xff, 0xff, 0xff, 0xff, 0xff, 0xff, 0xfe,
      0xba, 0xae, 0xdc, 0xe6, 0xaf, 0x48, 0xa0, 0x3b,
      0xbf, 0xd2, 0x5e, 0x8c, 0xd0, 0x36, 0x41, 0x41]"

definition EC_P :: buffer where
  "EC_P = [
      0xff, 0xff, 0xff, 0xff, 0xff, 0xff, 0xff, 0xff,
      0xff, 0xff, 0xff, 0xff, 0xff, 0xff, 0xff, 0xff,
      0xff, 0xff, 0xff, 0xff, 0xff, 0xff, 0xff, 0xff,
      0xff, 0xff, 0xff, 0xfe, 0xff, 0xff, 0xfc, 0x2f]"

definition THROW_BAD_PRIVATE :: string where "THROW_BAD_PRIVATE = ''Expected Private''"
definition THROW_BAD_POINT :: string where "THROW_BAD_POINT = ''Expected Point''"
definition THROW_BAD_HASH :: string where "THROW_BAD_HASH = ''Expected Hash''"
definition THROW_BAD_SIGNATURE :: string where "THROW_BAD_SIGNATURE = ''Expected Signature''"
definition THROW_BAD_EXTRA_DATA :: string where
  "THROW_BAD_EXTRA_DATA = ''Expected Extra Data (32 bytes)''"

text \<open>The two constants as numbers (the spec's \<open>GROUP_ORDER\<close> and \<open>FIELD_PRIME\<close>).\<close>

definition GROUP_ORDER :: int where
  "GROUP_ORDER = 0xfffffffffffffffffffffffffffffffebaaedce6af48a03bbfd25e8cd0364141"

definition FIELD_PRIME :: int where
  "FIELD_PRIME = 0xfffffffffffffffffffffffffffffffffffffffffffffffffffffffefffffc2f"

text \<open>\<open>fromBuffer\<close>: \<open>new BN(d)\<close>, the buffer read as a big-endian unsigned number.\<close>

definition fromBuffer :: "buffer \<Rightarrow> int" where
  "fromBuffer d = foldl (\<lambda>acc b. acc * 256 + uint b) 0 d"

fun be_bytes :: "nat \<Rightarrow> int \<Rightarrow> buffer" where
  "be_bytes 0 v = []"
| "be_bytes (Suc k) v = be_bytes k (v div 256) @ [word_of_int (v mod 256)]"

text \<open>
  \<open>toBuffer\<close>: \<open>d.toArrayLike(Buffer, 'be', 32)\<close> writes the magnitude of the number
  in 32 bytes and fails its assertion when the number needs more.
\<close>

definition toBuffer :: "int \<Rightarrow> error + buffer" where
  "toBuffer d =
     (if \<bar>d\<bar> \<ge> 2 ^ 256 then Inl (Error ''byte array longer than desired length'')
      else Inr (be_bytes 32 \<bar>d\<bar>))"

text \<open>
  \<open>bn.js\<close>: \<open>mod\<close> keeps the sign of the dividend (\<open>umod\<close> would not); \<open>xor\<close>
  asserts that neither operand is negative.
\<close>

definition bn_mod :: "int \<Rightarrow> int \<Rightarrow> int" where
  "bn_mod a m = (if 0 \<le> a then a mod m else - ((- a) mod m))"

definition bn_xor :: "int \<Rightarrow> int \<Rightarrow> error + int" where
  "bn_xor a b = (if a < 0 \<or> b < 0 then Inl (Error ''Assertion failed'') else Inr (a XOR b))"

text \<open>\<open>getX\<close> and \<open>getY\<close> read a coordinate that the point at infinity does not have.\<close>

definition getX :: "point \<Rightarrow> error + int" where
  "getX P = (case P of Infinity \<Rightarrow> Inl (TypeError ''Cannot read properties of null'')
             | Point x y \<Rightarrow> Inr x)"

definition isInfinity :: "point \<Rightarrow> bool" where
  "isInfinity P = (P = Infinity)"

section \<open>schnorrBip340.ts: predicates, verification, signing\<close>

definition isScalar :: "buffer \<Rightarrow> bool" where
  "isScalar x = (length x = 32)"

definition isPrivate :: "buffer \<Rightarrow> bool" where
  "isPrivate x =
     (if \<not> isScalar x then False
      else Buffer_compare x ZERO32 > 0 \<and> Buffer_compare x EC_GROUP_ORDER < 0)"

definition decodeXOnlyPoint :: "elliptic \<Rightarrow> buffer \<Rightarrow> error + point" where
  "decodeXOnlyPoint C bytes =
     (if length bytes \<noteq> 32 then Inl (Error ''invalid pubkey'')
      else if Buffer_compare bytes EC_P \<ge> 0 then Inl (Error ''invalid pubkey'')
      else curve_pointFromX C (fromBuffer bytes) False)"

definition encodeXOnlyPoint :: "point \<Rightarrow> error + buffer" where
  "encodeXOnlyPoint P = ebind (getX P) toBuffer"

definition hasEvenY :: "point \<Rightarrow> bool" where
  "hasEvenY P = (case P of Infinity \<Rightarrow> False | Point x y \<Rightarrow> y mod 2 = 0)"

definition isXOnlyPoint :: "elliptic \<Rightarrow> buffer \<Rightarrow> bool" where
  "isXOnlyPoint C x = (case decodeXOnlyPoint C x of Inl e \<Rightarrow> False | Inr P \<Rightarrow> True)"

definition isSignature :: "buffer \<Rightarrow> bool" where
  "isSignature v =
     (if length v \<noteq> 64 then False
      else Buffer_compare (slice 0 32 v) EC_GROUP_ORDER < 0 \<and>
           Buffer_compare (slice 32 64 v) EC_GROUP_ORDER < 0)"

text \<open>
  \<open>verifySchnorr\<close>: three argument checks that throw a TypeError, then the
  verification equation. \<open>R.getX()\<close> is only reached when \<open>R\<close> is not at infinity.
\<close>

definition verifySchnorr :: "elliptic \<Rightarrow> buffer \<Rightarrow> buffer \<Rightarrow> buffer \<Rightarrow> error + bool" where
  "verifySchnorr C hash q signature =
     (if \<not> isScalar hash then Inl (TypeError THROW_BAD_HASH)
      else if \<not> isXOnlyPoint C q then Inl (TypeError THROW_BAD_POINT)
      else if \<not> isSignature signature then Inl (TypeError THROW_BAD_SIGNATURE)
      else
        ebind (decodeXOnlyPoint C q) (\<lambda>P.
          let r = fromBuffer (slice 0 32 signature);
              s = fromBuffer (slice 32 64 signature);
              e = bn_mod (fromBuffer (taggedHash (crypto_sha256 C) ''BIP0340/challenge''
                                        (slice 0 32 signature @ q @ hash)))
                         (curve_n C);
              R = point_add C (point_mul C (curve_g C) s) (point_mul C P (curve_n C - e))
          in Inr (\<not> isInfinity R \<and> hasEvenY R \<and> getX R = Inr r)))"

text \<open>
  \<open>__signSchnorr\<close> in three steps. First the public point and the private scalar,
  negated when the point has odd y.
\<close>

definition normalizeKey :: "elliptic \<Rightarrow> buffer \<Rightarrow> point \<times> int" where
  "normalizeKey C d =
     (let dd = fromBuffer d;
          P = point_mul C (curve_g C) dd
      in (P, if hasEvenY P then dd else curve_n C - dd))"

text \<open>
  Second the nonce input \<open>t\<close>. In \<open>ts_src/schnorrBip340.ts\<close> it is always
  \<open>dd.xor(fromBuffer(taggedHash('BIP0340/aux', extraData)))\<close>.
\<close>

definition nonceInput :: "elliptic \<Rightarrow> int \<Rightarrow> buffer \<Rightarrow> error + int" where
  "nonceInput C dd extraData =
     bn_xor dd (fromBuffer (taggedHash (crypto_sha256 C) ''BIP0340/aux'' extraData))"

text \<open>
  Third everything from the nonce \<open>k0\<close> on. \<open>unverifiedSignature\<close> is the part up to
  the constant \<open>sig\<close>: the two failures on \<open>k0\<close> and \<open>R\<close>, the challenge and the
  signature, returned together with \<open>encodeXOnlyPoint(P)\<close>. \<open>signWithNonceInput\<close>
  adds the last statement of the source, the verification of \<open>sig\<close> before it is
  returned.
\<close>

definition unverifiedSignature ::
  "elliptic \<Rightarrow> buffer \<Rightarrow> point \<Rightarrow> int \<Rightarrow> int \<Rightarrow> error + (buffer \<times> buffer)" where
  "unverifiedSignature C hash P dd t =
     ebind (toBuffer t) (\<lambda>tb.
     ebind (encodeXOnlyPoint P) (\<lambda>px.
       let k0 = fromBuffer (taggedHash (crypto_sha256 C) ''BIP0340/nonce'' (tb @ px @ hash))
       in if k0 = 0
          then Inl (Error ''Failure (k0===0). This happens only with negligible probability.'')
          else
            (let R = point_mul C (curve_g C) k0
             in if isInfinity R then Inl (Error ''R at Infinity'')
                else
                  (let k = (if hasEvenY R then k0 else curve_n C - k0)
                   in ebind (encodeXOnlyPoint R) (\<lambda>rx.
                        let e = bn_mod (fromBuffer (taggedHash (crypto_sha256 C)
                                                      ''BIP0340/challenge'' (rx @ px @ hash)))
                                       (curve_n C)
                        in ebind (toBuffer (bn_mod (k + e * dd) (curve_n C))) (\<lambda>sb.
                             Inr (px, rx @ sb)))))))"

definition signWithNonceInput ::
  "elliptic \<Rightarrow> buffer \<Rightarrow> point \<Rightarrow> int \<Rightarrow> int \<Rightarrow> error + buffer" where
  "signWithNonceInput C hash P dd t =
     ebind (unverifiedSignature C hash P dd t) (\<lambda>(px, sig).
       ebind (verifySchnorr C hash px sig) (\<lambda>ok.
         if \<not> ok then Inl (Error ''The created signature does not pass verification.'')
         else Inr sig))"

text \<open>\<open>__signSchnorr\<close> of \<open>ts_src/schnorrBip340.ts\<close>: \<open>extraData\<close> is required.\<close>

definition signSchnorr_internal ::
  "elliptic \<Rightarrow> buffer \<Rightarrow> buffer \<Rightarrow> buffer \<Rightarrow> error + buffer" where
  "signSchnorr_internal C hash d extraData =
     (if \<not> isScalar hash then Inl (TypeError THROW_BAD_HASH)
      else if \<not> isPrivate d then Inl (TypeError THROW_BAD_PRIVATE)
      else if length extraData \<noteq> 32 then Inl (TypeError THROW_BAD_EXTRA_DATA)
      else
        (case normalizeKey C d of
           (P, dd) \<Rightarrow>
             ebind (nonceInput C dd extraData) (signWithNonceInput C hash P dd)))"

text \<open>\<open>signSchnorr\<close> of \<open>ts_src\<close> passes \<open>Buffer.alloc(32)\<close>, thirty-two zero bytes.\<close>

definition signSchnorr :: "elliptic \<Rightarrow> buffer \<Rightarrow> buffer \<Rightarrow> error + buffer" where
  "signSchnorr C hash d = signSchnorr_internal C hash d (replicate 32 0)"

definition signSchnorrWithEntropy ::
  "elliptic \<Rightarrow> buffer \<Rightarrow> buffer \<Rightarrow> buffer \<Rightarrow> error + buffer" where
  "signSchnorrWithEntropy C hash d auxRand = signSchnorr_internal C hash d auxRand"

section \<open>The compiled schnorrBip340 (src/unnamed/part_001)\<close>

text \<open>
  The compiled JavaScript of the same module is a different revision: \<open>extraData\<close> is
  optional in \<open>__signSchnorr\<close>, checked only when it is not \<open>undefined\<close>, and the
  nonce input is \<open>dd\<close> itself when it is absent. Its exports are
  \<open>signSchnorr(hash, d, extraData)\<close> and \<open>signSchnorrWithoutExtraData(hash, d)\<close>.
  \<open>verifySchnorr\<close> is the same in both files.
\<close>

definition js_nonceInput :: "elliptic \<Rightarrow> int \<Rightarrow> buffer option \<Rightarrow> error + int" where
  "js_nonceInput C dd extraData =
     (case extraData of
        Some aux \<Rightarrow>
          bn_xor dd (fromBuffer (taggedHash (crypto_sha256 C) ''BIP0340/aux'' aux))
      | None \<Rightarrow> Inr dd)"

definition js_signSchnorr_internal ::
  "elliptic \<Rightarrow> buffer \<Rightarrow> buffer \<Rightarrow> buffer option \<Rightarrow> error + buffer" where
  "js_signSchnorr_internal C hash d extraData =
     (if \<not> isScalar hash then Inl (TypeError THROW_BAD_HASH)
      else if \<not> isPrivate d then Inl (TypeError THROW_BAD_PRIVATE)
      else if (case extraData of None \<Rightarrow> False | Some aux \<Rightarrow> length aux \<noteq> 32)
      then Inl (TypeError THROW_BAD_EXTRA_DATA)
      else
        (case normalizeKey C d of
           (P, dd) \<Rightarrow>
             ebind (js_nonceInput C dd extraData) (signWithNonceInput C hash P dd)))"

definition js_signSchnorr ::
  "elliptic \<Rightarrow> buffer \<Rightarrow> buffer \<Rightarrow> buffer option \<Rightarrow> error + buffer" where
  "js_signSchnorr C hash d extraData = js_signSchnorr_internal C hash d extraData"

definition signSchnorrWithoutExtraData :: "elliptic \<Rightarrow> buffer \<Rightarrow> buffer \<Rightarrow> error + buffer" where
  "signSchnorrWithoutExtraData C hash d = js_signSchnorr_internal C hash d None"

section \<open>Small instances of the collaborators\<close>

text \<open>
  The theorems below hold for every implementation of the collaborators. To evaluate
  them at concrete inputs, here is one small implementation of each interface. For
  \<open>elliptic\<close>: the curve equation of secp256k1, \<open>y\<^sup>2 = x\<^sup>3 + 7\<close>, over the field of
  43 elements, with the usual affine addition and double-and-add multiplication; the
  curve has 31 points and \<open>(2, 31)\<close> generates it. The hash is a stand-in that maps
  a message to 32 bytes.
\<close>

definition fe_inv :: "int \<Rightarrow> int \<Rightarrow> int" where
  "fe_inv p a = (a mod p) ^ nat (p - 2) mod p"

fun ec_add :: "int \<Rightarrow> point \<Rightarrow> point \<Rightarrow> point" where
  "ec_add p Infinity Q = Q"
| "ec_add p (Point x1 y1) Infinity = Point x1 y1"
| "ec_add p (Point x1 y1) (Point x2 y2) =
     (if x1 = x2
      then (if y1 = y2 \<and> y1 \<noteq> 0
            then (let l = 3 * x1 * x1 * fe_inv p (2 * y1) mod p;
                      x3 = (l * l - x1 - x2) mod p
                  in Point x3 ((l * (x1 - x3) - y1) mod p))
            else Infinity)
      else (let l = (y2 - y1) * fe_inv p (x2 - x1) mod p;
                x3 = (l * l - x1 - x2) mod p
            in Point x3 ((l * (x1 - x3) - y1) mod p)))"

function ec_mul :: "int \<Rightarrow> point \<Rightarrow> int \<Rightarrow> point" where
  "ec_mul p P k =
     (if k \<le> 0 then Infinity
      else (let h = ec_mul p (ec_add p P P) (k div 2)
            in if k mod 2 = 1 then ec_add p P h else h))"
  by pat_completeness auto
termination
  by (relation "measure (\<lambda>(p, P, k). nat k)") auto

declare ec_mul.simps [simp del]

definition ec_pointFromX :: "int \<Rightarrow> int \<Rightarrow> bool \<Rightarrow> error + point" where
  "ec_pointFromX p x wantOdd =
     (let y2 = (x * x * x + 7) mod p;
          y = y2 ^ nat ((p + 1) div 4) mod p
      in if (y * y - y2) mod p \<noteq> 0 then Inl (Error ''invalid point'')
         else Inr (Point (x mod p) (if (y mod 2 = 1) = wantOdd then y else (p - y) mod p)))"

text \<open>A number below \<open>2\<^sup>2\<^sup>5\<^sup>6\<close> as a 32-byte big-endian buffer, to write sample inputs.\<close>

definition scalar32 :: "int \<Rightarrow> buffer" where
  "scalar32 v = be_bytes 32 v"

definition toy_sha256 :: "buffer \<Rightarrow> buffer" where
  "toy_sha256 m = scalar32 (foldl (\<lambda>acc b. (acc * 257 + uint b) mod 1000003) 7 m + 1)"

definition tiny_curve :: elliptic where
  "tiny_curve =
     \<lparr>crypto_sha256 = toy_sha256,
      curve_n = 31,
      curve_g = Point 2 31,
      point_mul = ec_mul 43,
      point_add = ec_add 43,
      curve_pointFromX = ec_pointFromX 43\<rparr>"

text \<open>
  For \<open>tiny-secp256k1\<close>: the additive group of the integers modulo 31. The element
  \<open>k\<close> is encoded in 33 bytes, the byte \<open>0x02\<close> followed by \<open>k\<close> in 32 bytes; the
  neutral element has no encoding, and the functions return \<open>null\<close> for it as the
  package does for the point at infinity. For the script codec: opcodes are single
  bytes, and a byte from 1 to 75 announces that many bytes of data.
\<close>

definition group_decode :: "buffer \<Rightarrow> int" where
  "group_decode b = fromBuffer (drop 1 b) mod 31"

definition group_encode :: "int \<Rightarrow> buffer option" where
  "group_encode k = (if k mod 31 = 0 then None else Some (0x02 # be_bytes 32 (k mod 31)))"

definition sample_isPoint :: "chunk \<Rightarrow> bool" where
  "sample_isPoint c =
     (case c of
        Op k \<Rightarrow> False
      | Data b \<Rightarrow> length b = 33 \<and> js_index b 0 = Some 0x02 \<and> group_decode b \<noteq> 0)"

definition sample_pointAdd :: "buffer option \<Rightarrow> buffer option \<Rightarrow> error + buffer option" where
  "sample_pointAdd a b =
     (case a of
        None \<Rightarrow> Inl (TypeError ''Expected Point'')
      | Some x \<Rightarrow>
          (case b of
             None \<Rightarrow> Inl (TypeError ''Expected Point'')
           | Some y \<Rightarrow> Inr (group_encode (group_decode x + group_decode y))))"

definition sample_pointMultiply :: "buffer \<Rightarrow> buffer \<Rightarrow> error + buffer option" where
  "sample_pointMultiply a tweak = Inr (group_encode (group_decode a * fromBuffer tweak))"

definition sample_pointAddScalar :: "buffer \<Rightarrow> buffer \<Rightarrow> error + buffer option" where
  "sample_pointAddScalar a tweak = Inr (group_encode (group_decode a + fromBuffer tweak))"

function sample_parse :: "buffer \<Rightarrow> chunk list option" where
  "sample_parse [] = Some []"
| "sample_parse (b # rest) =
     (if 1 \<le> unat b \<and> unat b \<le> 75
      then (if length rest < unat b then None
            else map_option (\<lambda>cs. Data (take (unat b) rest) # cs)
                   (sample_parse (drop (unat b) rest)))
      else map_option (\<lambda>cs. Op (unat b) # cs) (sample_parse rest))"
  by pat_completeness auto
termination
  by (relation "measure length") auto

definition sample_decompile :: "buffer option \<Rightarrow> error + chunk list option" where
  "sample_decompile b =
     (case b of
        None \<Rightarrow> Inl (TypeError ''Expected Buffer'')
      | Some script \<Rightarrow> Inr (sample_parse script))"

fun sample_compile :: "chunk list \<Rightarrow> buffer" where
  "sample_compile [] = []"
| "sample_compile (Op k # cs) = of_nat k # sample_compile cs"
| "sample_compile (Data b # cs) = of_nat (length b) # b @ sample_compile cs"

definition sample_lib :: collaborators where
  "sample_lib =
     \<lparr>bcrypto_sha256 = toy_sha256,
      bscript_decompile = sample_decompile,
      bscript_compile = sample_compile,
      bscript_isCanonicalSchnorrSignature =
        (\<lambda>c. case c of Op k \<Rightarrow> False | Data b \<Rightarrow> length b = 64),
      varuint_encode = (\<lambda>k. [of_nat k]),
      ecc_isPoint = sample_isPoint,
      ecc_pointAddScalar = sample_pointAddScalar,
      ecc_pointMultiply = sample_pointMultiply,
      ecc_pointAdd = sample_pointAdd\<rparr>"

section \<open>Buffer order and sorting\<close>

lemma Buffer_compare_le: "(Buffer_compare a b \<le> 0) = (a \<le> b)"
  by (induction a b rule: Buffer_compare.induct) auto

lemma Buffer_compare_less: "(Buffer_compare a b < 0) = (a < b)"
  by (induction a b rule: Buffer_compare.induct) auto

lemma Buffer_compare_eq: "(Buffer_compare a b = 0) = (a = b)"
  by (induction a b rule: Buffer_compare.induct) auto

lemma insert_sorted_insort: "insert_sorted x ys = insort x ys"
  by (induction ys) (simp_all add: Buffer_compare_le)

lemma sort_buffers_sort: "sort_buffers xs = sort xs"
  by (induction xs) (simp_all add: sort_buffers_def insert_sorted_insort)

lemma sort_short: "length xs \<le> Suc 0 \<Longrightarrow> sort xs = (xs :: buffer list)"
  by (cases xs) auto

lemma sort_buffers_perm: "mset xs = mset ys \<Longrightarrow> sort_buffers xs = sort_buffers ys"
proof -
  assume "mset xs = mset ys"
  then have "mset (sort ys) = mset xs" by simp
  then have "sort xs = sort ys"
    by (rule properties_for_sort) simp
  then show ?thesis by (simp add: sort_buffers_sort)
qed

section \<open>Properties of aggregateMuSigPubkeys\<close>

lemma tweakPubkeys_length:
  "tweakPubkeys L l i ks = Inr ts \<Longrightarrow> length ts = length ks"
proof (induction ks arbitrary: i ts)
  case Nil
  then show ?case by simp
next
  case (Cons k ks)
  then show ?case
    by (auto simp add: ebind_def split: sum.splits if_splits)
qed

lemma reducePointAdd_length:
  assumes lib: "\<And>a b r. ecc_pointAdd L a b = Inr (Some r) \<Longrightarrow> length r = 33"
  shows "reducePointAdd L prev rest = Inr (Some r) \<Longrightarrow> rest \<noteq> [] \<Longrightarrow> length r = 33"
proof (induction rest arbitrary: prev)
  case Nil
  then show ?case by simp
next
  case (Cons c cs)
  from Cons.prems(1) obtain s where
    s: "ecc_pointAdd L prev c = Inr s" and rest: "reducePointAdd L s cs = Inr (Some r)"
    by (auto simp add: ebind_def split: sum.splits)
  show ?case
  proof (cases cs)
    case Nil
    with rest s show ?thesis using lib by simp
  next
    case (Cons c' cs')
    with rest Cons.IH show ?thesis by blast
  qed
qed

text \<open>
  C10: whatever the call returns or throws, the caller's array afterwards is the array
  it passed, sorted in ascending lexicographic byte order: same elements, possibly in a
  different order. (An array of fewer than two keys fails the assertion before the sort,
  and is sorted as it is.) The array is the only state the model threads through the
  call.
\<close>

theorem aggregateMuSigPubkeys_sorts_argument:
  "fst (aggregateMuSigPubkeys L pubkeys) = sort pubkeys \<and>
   fst (aggregateMuSigPubkeys L pubkeys) = sort_buffers pubkeys \<and>
   sorted (fst (aggregateMuSigPubkeys L pubkeys)) \<and>
   mset (fst (aggregateMuSigPubkeys L pubkeys)) = mset pubkeys"
proof -
  have "fst (aggregateMuSigPubkeys L pubkeys) = sort pubkeys"
  proof (cases "length pubkeys > 1")
    case True
    then show ?thesis
      by (simp add: aggregateMuSigPubkeys_def Let_def sort_buffers_sort)
  next
    case False
    then have "length pubkeys \<le> Suc 0" by simp
    then have "sort pubkeys = pubkeys" by (rule sort_short)
    with False show ?thesis
      by (simp add: aggregateMuSigPubkeys_def)
  qed
  then show ?thesis
    by (simp add: sort_buffers_sort)
qed

theorem aggregateMuSigPubkeys_sorts_argument_witness:
  "\<forall>L. fst (aggregateMuSigPubkeys L [[0x03, 0x01], [0x02, 0xff], [0x02]]) =
         [[0x02], [0x02, 0xff], [0x03, 0x01]]"
proof
  fix L
  have "sort_buffers [[0x03, 0x01], [0x02, 0xff], [0x02 :: byte]] =
        [[0x02], [0x02, 0xff], [0x03, 0x01]]"
    by (simp add: sort_buffers_def)
  then show "fst (aggregateMuSigPubkeys L [[0x03, 0x01], [0x02, 0xff], [0x02]]) =
         [[0x02], [0x02, 0xff], [0x03, 0x01]]"
    using aggregateMuSigPubkeys_sorts_argument [of L "[[0x03, 0x01], [0x02, 0xff], [0x02]]"]
    by simp
qed

section \<open>Properties of removeAnnex\<close>

lemma last_first_byte_snoc:
  "last_first_byte (xs @ [b]) = js_index b 0"
  by (simp add: last_first_byte_def js_index_def)

lemma removeAnnex_snoc:
  "removeAnnex (xs @ [b]) =
     (if xs \<noteq> [] \<and> js_index b 0 = Some 0x50 then xs else xs @ [b])"
proof -
  have "(2 \<le> length (xs @ [b])) = (xs \<noteq> [])"
    by (cases xs) simp_all
  then show ?thesis
    by (simp add: removeAnnex_def last_first_byte_snoc slice_def)
qed

lemma removeAnnex_Nil: "removeAnnex [] = []"
  by (simp add: removeAnnex_def)

lemma removeAnnex_single: "removeAnnex [b] = [b]"
  by (simp add: removeAnnex_def)

text \<open>
  C6, the claim as stated (idempotence on every stack) fails: with two trailing elements
  that both start with \<open>0x50\<close> the first call drops one and the second call drops the
  other.
\<close>

theorem removeAnnex_not_idempotent:
  "removeAnnex (removeAnnex [[0x01], [0x50], [0x50]]) = [[0x01]] \<and>
   removeAnnex [[0x01], [0x50], [0x50]] = [[0x01], [0x50]] \<and>
   removeAnnex (removeAnnex [[0x01], [0x50], [0x50]]) \<noteq> removeAnnex [[0x01], [0x50], [0x50]]"
  by (simp add: removeAnnex_def last_first_byte_def js_index_def slice_def)

text \<open>
  C6, amended: a second call changes nothing exactly when the stack does not have three
  or more elements whose last two both begin with the annex marker \<open>0x50\<close>.
\<close>

theorem removeAnnex_idempotent_iff:
  "(removeAnnex (removeAnnex witnessStack) = removeAnnex witnessStack) =
   (\<not> (length witnessStack \<ge> 3 \<and>
        last_first_byte witnessStack = Some 0x50 \<and>
        last_first_byte (butlast witnessStack) = Some 0x50))"
proof (cases witnessStack rule: rev_cases)
  case Nil
  then show ?thesis by (simp add: removeAnnex_Nil)
next
  case (snoc ys b)
  note outer = snoc
  show ?thesis
  proof (cases ys rule: rev_cases)
    case Nil
    with outer show ?thesis
      by (simp add: removeAnnex_single)
  next
    case (snoc zs c)
    have len: "(3 \<le> length ((zs @ [c]) @ [b])) = (zs \<noteq> [])"
      by (cases zs) simp_all
    show ?thesis
      unfolding outer snoc len
      by (auto simp add: removeAnnex_snoc last_first_byte_snoc
          simp del: append_assoc)
  qed
qed

theorem removeAnnex_idempotent_iff_witness:
  "removeAnnex (removeAnnex [[0x01], [0x50]]) = removeAnnex [[0x01], [0x50]] \<and>
   removeAnnex [[0x01], [0x50]] = [[0x01]]"
  using removeAnnex_idempotent_iff [of "[[0x01], [0x50]]"]
  by (simp add: removeAnnex_def last_first_byte_def js_index_def slice_def)

section \<open>Evaluation at concrete inputs\<close>

lemma be_bytes_numeral:
  "be_bytes (numeral k) v = be_bytes (pred_numeral k) (v div 256) @ [word_of_int (v mod 256)]"
  by (simp add: numeral_eq_Suc)

lemma replicate_numeral: "replicate (numeral k) x = x # replicate (pred_numeral k) x"
  by (simp add: numeral_eq_Suc)

lemmas eval_bytes =
  be_bytes_numeral replicate_numeral fromBuffer_def Buffer_from_def toy_sha256_def taggedHash_def

lemma scalar32_bytes: "scalar32 v = be_bytes 32 v"
  by (simp add: scalar32_def)

lemma length_be_bytes: "length (be_bytes k v) = k"
  by (induction k arbitrary: v) simp_all

lemma length_scalar32: "length (scalar32 v) = 32"
  by (simp add: scalar32_def length_be_bytes)

lemma fromBuffer_be_bytes:
  "0 \<le> v \<Longrightarrow> v < 256 ^ k \<Longrightarrow> fromBuffer (be_bytes k v) = v"
proof (induction k arbitrary: v)
  case 0
  then show ?case by (simp add: fromBuffer_def)
next
  case (Suc k)
  from Suc.prems have "v div 256 < 256 ^ k"
    by (simp add: div_less_iff_less_mult mult.commute)
  with Suc have IH: "fromBuffer (be_bytes k (v div 256)) = v div 256"
    by simp
  have "uint (word_of_int (v mod 256) :: byte) = v mod 256"
    by (simp add: uint_word_of_int take_bit_eq_mod)
  with IH show ?case
    by (simp add: fromBuffer_def)
qed

lemma fromBuffer_scalar32:
  "0 \<le> v \<Longrightarrow> v < 2 ^ 256 \<Longrightarrow> fromBuffer (scalar32 v) = v"
proof -
  assume "0 \<le> v" and "v < 2 ^ 256"
  moreover have "(256 :: int) ^ 32 = 2 ^ 256" by simp
  ultimately show ?thesis
    by (simp add: scalar32_def fromBuffer_be_bytes)
qed

lemma toBuffer_scalar32:
  "0 \<le> v \<Longrightarrow> v < 2 ^ 256 \<Longrightarrow> toBuffer v = Inr (scalar32 v)"
  by (simp add: toBuffer_def scalar32_def)

lemma tiny_curve_sel:
  "crypto_sha256 tiny_curve = toy_sha256"
  "curve_n tiny_curve = 31"
  "curve_g tiny_curve = Point 2 31"
  "point_mul tiny_curve = ec_mul 43"
  "point_add tiny_curve = ec_add 43"
  "curve_pointFromX tiny_curve = ec_pointFromX 43"
  by (simp_all add: tiny_curve_def)

lemma ec_mul_pos:
  "0 < k \<Longrightarrow>
   ec_mul p P k =
     (let h = ec_mul p (ec_add p P P) (k div 2) in if k mod 2 = 1 then ec_add p P h else h)"
  by (subst ec_mul.simps) simp

lemma ec_mul_0: "ec_mul p P 0 = Infinity"
  by (subst ec_mul.simps) simp

lemma sample_lib_sel:
  "bcrypto_sha256 sample_lib = toy_sha256"
  "ecc_pointMultiply sample_lib = sample_pointMultiply"
  "ecc_pointAdd sample_lib = sample_pointAdd"
  "ecc_pointAddScalar sample_lib = sample_pointAddScalar"
  "ecc_isPoint sample_lib = sample_isPoint"
  "bscript_decompile sample_lib = sample_decompile"
  "bscript_compile sample_lib = sample_compile"
  by (simp_all add: sample_lib_def)

lemma sample_sorted:
  "sort_buffers [scalar32 5, scalar32 9] = [scalar32 5, scalar32 9]"
  by (simp add: sort_buffers_def scalar32_def eval_bytes)

lemma sample_keyagg_list:
  "taggedHash toy_sha256 ''KeyAgg list'' (scalar32 5 @ scalar32 9) = scalar32 581251"
  by (simp add: eval_bytes scalar32_def)

lemma sample_keyagg_coefficient:
  "taggedHash toy_sha256 ''KeyAgg coefficient'' (scalar32 581251 @ scalar32 5) = scalar32 807043"
  by (simp add: eval_bytes scalar32_def)

lemma sample_multiply:
  "sample_pointMultiply (EVEN_Y_COORD_PREFIX @ scalar32 5) (scalar32 807043) =
   Inr (Some (0x02 # scalar32 7))"
  by (simp add: eval_bytes scalar32_def sample_pointMultiply_def group_encode_def
      group_decode_def EVEN_Y_COORD_PREFIX_def)

lemma sample_add:
  "sample_pointAdd (Some (0x02 # scalar32 7)) (Some (EVEN_Y_COORD_PREFIX @ scalar32 9)) =
   Inr (Some (0x02 # scalar32 16))"
  by (simp add: eval_bytes scalar32_def sample_pointAdd_def group_encode_def
      group_decode_def EVEN_Y_COORD_PREFIX_def)

lemma sample_aggregate:
  "snd (aggregateMuSigPubkeys sample_lib [scalar32 5, scalar32 9]) = Inr (scalar32 16)"
  by (simp add: aggregateMuSigPubkeys_def sample_lib_sel sample_sorted sample_keyagg_list
      sample_keyagg_coefficient sample_multiply sample_add ebind_def length_scalar32)

lemma sample_pointAdd_length:
  "ecc_pointAdd sample_lib a b = Inr (Some r) \<Longrightarrow> length r = 33"
proof -
  have len: "length (be_bytes k v) = k" for k v
    by (induction k arbitrary: v) simp_all
  assume "ecc_pointAdd sample_lib a b = Inr (Some r)"
  then show ?thesis
    by (auto simp add: sample_lib_def sample_pointAdd_def group_encode_def len
        split: option.splits if_splits)
qed

text \<open>
  C8: the result (the key or the exception) depends only on the multiset of the keys,
  so every permutation of a list gives the same result; fewer than two keys fail the
  assertion; and when \<open>ecc.pointAdd\<close> returns 33-byte encodings, a returned key has 32
  bytes.
\<close>

theorem aggregateMuSigPubkeys_order_independent:
  "(mset pubkeys' = mset pubkeys \<longrightarrow>
      snd (aggregateMuSigPubkeys L pubkeys') = snd (aggregateMuSigPubkeys L pubkeys)) \<and>
   (length pubkeys < 2 \<longrightarrow>
      snd (aggregateMuSigPubkeys L pubkeys) =
        Inl (AssertionError ''at least two pubkeys are required for musig key aggregation'')) \<and>
   ((\<forall>a b r. ecc_pointAdd L a b = Inr (Some r) \<longrightarrow> length r = 33) \<longrightarrow>
      (\<forall>k. snd (aggregateMuSigPubkeys L pubkeys) = Inr k \<longrightarrow> length k = 32))"
proof (intro conjI impI allI)
  assume m: "mset pubkeys' = mset pubkeys"
  then have "length pubkeys' = length pubkeys"
    by (rule mset_eq_length)
  moreover from m have "sort_buffers pubkeys' = sort_buffers pubkeys"
    by (rule sort_buffers_perm)
  ultimately show "snd (aggregateMuSigPubkeys L pubkeys') = snd (aggregateMuSigPubkeys L pubkeys)"
    by (simp add: aggregateMuSigPubkeys_def)
next
  assume "length pubkeys < 2"
  then show "snd (aggregateMuSigPubkeys L pubkeys) =
        Inl (AssertionError ''at least two pubkeys are required for musig key aggregation'')"
    by (simp add: aggregateMuSigPubkeys_def)
next
  fix k
  assume lib: "\<forall>a b r. ecc_pointAdd L a b = Inr (Some r) \<longrightarrow> length r = 33"
    and res: "snd (aggregateMuSigPubkeys L pubkeys) = Inr k"
  from res have long: "length pubkeys > 1"
    by (auto simp add: aggregateMuSigPubkeys_def split: if_splits)
  define l where "l = taggedHash (bcrypto_sha256 L) ''KeyAgg list'' (concat (sort_buffers pubkeys))"
  from res long obtain ts b where
    ts: "tweakPubkeys L l 0 (sort_buffers pubkeys) = Inr ts" and
    red: "reducePointAdd L (hd ts) (tl ts) = Inr (Some b)" and
    k: "k = drop 1 b"
    by (auto simp add: aggregateMuSigPubkeys_def Let_def ebind_def l_def
        split: sum.splits option.splits)
  from ts have "length ts = length (sort_buffers pubkeys)"
    by (rule tweakPubkeys_length)
  with long have "length ts > 1"
    by (simp add: sort_buffers_sort)
  then have "tl ts \<noteq> []"
    by (cases ts) auto
  with red lib have "length b = 33"
    using reducePointAdd_length [of L "hd ts" "tl ts" b] by blast
  with k show "length k = 32" by simp
qed

theorem aggregateMuSigPubkeys_order_independent_witness:
  "snd (aggregateMuSigPubkeys sample_lib [scalar32 9, scalar32 5]) =
     Inr (scalar32 16) \<and>
   snd (aggregateMuSigPubkeys sample_lib [scalar32 5, scalar32 9]) =
     Inr (scalar32 16) \<and>
   length (scalar32 16) = 32 \<and>
   snd (aggregateMuSigPubkeys sample_lib [scalar32 5]) =
     Inl (AssertionError ''at least two pubkeys are required for musig key aggregation'')"
proof -
  note main = aggregateMuSigPubkeys_order_independent
  have perm: "mset [scalar32 9, scalar32 5] =
              mset [scalar32 5, scalar32 9]"
    by simp
  have lib: "\<forall>a b r. ecc_pointAdd sample_lib a b = Inr (Some r) \<longrightarrow> length r = 33"
    using sample_pointAdd_length by blast
  from main [of "[scalar32 9, scalar32 5]"
               "[scalar32 5, scalar32 9]" sample_lib] perm
  have swapped: "snd (aggregateMuSigPubkeys sample_lib [scalar32 9, scalar32 5]) =
        snd (aggregateMuSigPubkeys sample_lib [scalar32 5, scalar32 9])"
    by blast
  from main [of "[scalar32 5]" "[scalar32 5]" sample_lib]
  have short: "snd (aggregateMuSigPubkeys sample_lib [scalar32 5]) =
     Inl (AssertionError ''at least two pubkeys are required for musig key aggregation'')"
    by simp
  from main [of "[scalar32 5, scalar32 9]"
               "[scalar32 5, scalar32 9]" sample_lib] lib sample_aggregate
  have len: "length (scalar32 16) = 32"
    by blast
  from swapped short len sample_aggregate show ?thesis
    by simp
qed


section \<open>Properties of isValidTapscript\<close>

lemma parse_two:
  "parseTaprootWitness L [ts, cb] =
     ebind (bscript_decompile L (Some ts)) (\<lambda>tapscriptChunks.
        if tapscriptChunks = None \<or> tapscriptChunks = Some []
        then Inl (Error ''tapscript is not a valid script'')
        else if length cb < 33 \<or> length cb > 33 + 32 * 128 \<or> length cb mod 32 \<noteq> 1
        then Inl (Error ''invalid control block length'')
        else if \<not> ecc_isPoint L (Data (EVEN_Y_COORD_PREFIX @ slice 1 33 cb))
        then Inl (Error ''internal pubkey is not an EC point'')
        else if (cb ! 0) AND 0xfe = 0x50 then Inl (Error ''invalid leaf version'')
        else Inr \<lparr>tapscript = Some ts, controlBlock = cb,
                  taptreeDepth = length cb div 32 - 1,
                  internalPubkey = slice 1 33 cb, leafVersion = (cb ! 0) AND 0xfe\<rparr>)"
  by (cases "bscript_decompile L (Some ts)")
     (simp_all add: parseTaprootWitness_def js_index_def Let_def ebind_def)

lemma isValidTapscript_parse_error:
  "parseTaprootWitness L witnessStack = Inl e \<Longrightarrow>
   isValidTapscript L witnessStack witnessProgram = Inl e"
  by (simp add: isValidTapscript_def ebind_def)

lemma isValidTapscript_returns:
  "isValidTapscript L witnessStack witnessProgram = Inr b \<Longrightarrow>
   \<exists>w. parseTaprootWitness L witnessStack = Inr w"
  by (cases "parseTaprootWitness L witnessStack") (simp_all add: isValidTapscript_def ebind_def)

text \<open>
  C3, the claim as stated fails: on a witness whose control block has 66 bytes
  \<open>isValidTapscript\<close> throws, with every implementation of the collaborators; with
  the sample ones the exception is the parser's \<open>invalid control block length\<close>.
\<close>

theorem isValidTapscript_throws:
  "(\<forall>L witnessProgram. \<exists>e.
      isValidTapscript L [[0x51], replicate 66 0] witnessProgram = Inl e) \<and>
   isValidTapscript sample_lib [[0x51], replicate 66 0] (scalar32 1) =
     Inl (Error ''invalid control block length'')"
proof
  show "\<forall>L witnessProgram. \<exists>e.
      isValidTapscript L [[0x51], replicate 66 0] witnessProgram = Inl e"
  proof (intro allI)
    fix L witnessProgram
    have "\<exists>e. parseTaprootWitness L [[0x51], replicate 66 0] = Inl e"
      by (cases "bscript_decompile L (Some [0x51])") (simp_all add: parse_two ebind_def)
    then show "\<exists>e. isValidTapscript L [[0x51], replicate 66 0] witnessProgram = Inl e"
      using isValidTapscript_parse_error by blast
  qed
next
  have "sample_parse [0x51] = Some [Op 81]"
    by simp
  then have "parseTaprootWitness sample_lib [[0x51], replicate 66 0] =
        Inl (Error ''invalid control block length'')"
    by (simp add: parse_two sample_lib_sel sample_decompile_def ebind_def)
  then show "isValidTapscript sample_lib [[0x51], replicate 66 0] (scalar32 1) =
     Inl (Error ''invalid control block length'')"
    by (rule isValidTapscript_parse_error)
qed

text \<open>
  C3, amended: \<open>isValidTapscript\<close> does not catch. Every exception of
  \<open>parseTaprootWitness\<close> is an exception of \<open>isValidTapscript\<close>, which returns a
  boolean only for a witness that parses; on a stack of a tapscript and a control block
  the four structural failures are the parser's four errors, in this order. The
  function that turns a parse failure into \<open>false\<close> is \<open>isScriptPathSpend\<close>.
\<close>

theorem isValidTapscript_propagates_parse_errors:
  "(\<forall>e. parseTaprootWitness L witnessStack = Inl e \<longrightarrow>
        isValidTapscript L witnessStack witnessProgram = Inl e) \<and>
   (\<forall>b. isValidTapscript L witnessStack witnessProgram = Inr b \<longrightarrow>
        (\<exists>w. parseTaprootWitness L witnessStack = Inr w)) \<and>
   isScriptPathSpend L witnessStack = (\<exists>w. parseTaprootWitness L witnessStack = Inr w) \<and>
   (\<forall>chunks. bscript_decompile L (Some ts) = Inr chunks \<longrightarrow>
      isValidTapscript L [ts, cb] witnessProgram =
        (if chunks = None \<or> chunks = Some []
         then Inl (Error ''tapscript is not a valid script'')
         else if length cb < 33 \<or> length cb > 33 + 32 * 128 \<or> length cb mod 32 \<noteq> 1
         then Inl (Error ''invalid control block length'')
         else if \<not> ecc_isPoint L (Data (EVEN_Y_COORD_PREFIX @ slice 1 33 cb))
         then Inl (Error ''internal pubkey is not an EC point'')
         else if (cb ! 0) AND 0xfe = 0x50 then Inl (Error ''invalid leaf version'')
         else isValidTapscript L [ts, cb] witnessProgram))"
proof (intro conjI allI impI)
  fix e
  assume "parseTaprootWitness L witnessStack = Inl e"
  then show "isValidTapscript L witnessStack witnessProgram = Inl e"
    by (rule isValidTapscript_parse_error)
next
  fix b
  assume "isValidTapscript L witnessStack witnessProgram = Inr b"
  then show "\<exists>w. parseTaprootWitness L witnessStack = Inr w"
    by (rule isValidTapscript_returns)
next
  show "isScriptPathSpend L witnessStack = (\<exists>w. parseTaprootWitness L witnessStack = Inr w)"
    by (cases "parseTaprootWitness L witnessStack") (simp_all add: isScriptPathSpend_def)
next
  fix chunks
  assume d: "bscript_decompile L (Some ts) = Inr chunks"
  show "isValidTapscript L [ts, cb] witnessProgram =
        (if chunks = None \<or> chunks = Some []
         then Inl (Error ''tapscript is not a valid script'')
         else if length cb < 33 \<or> length cb > 33 + 32 * 128 \<or> length cb mod 32 \<noteq> 1
         then Inl (Error ''invalid control block length'')
         else if \<not> ecc_isPoint L (Data (EVEN_Y_COORD_PREFIX @ slice 1 33 cb))
         then Inl (Error ''internal pubkey is not an EC point'')
         else if (cb ! 0) AND 0xfe = 0x50 then Inl (Error ''invalid leaf version'')
         else isValidTapscript L [ts, cb] witnessProgram)"
    using d by (simp add: isValidTapscript_def parse_two ebind_def)
qed

lemma sample_parse_op: "sample_decompile (Some [0x51]) = Inr (Some [Op 81])"
  by (simp add: sample_decompile_def)

lemma sample_parse_empty: "sample_decompile (Some []) = Inr (Some [])"
  by (simp add: sample_decompile_def)

lemma sample_not_point: "\<not> sample_isPoint (Data (EVEN_Y_COORD_PREFIX @ slice 1 33 (0xc0 # scalar32 0)))"
  by (simp add: sample_isPoint_def EVEN_Y_COORD_PREFIX_def slice_def scalar32_def
      eval_bytes group_decode_def)

lemma sample_point: "sample_isPoint (Data (EVEN_Y_COORD_PREFIX @ slice 1 33 (0x50 # scalar32 5)))"
  by (simp add: sample_isPoint_def EVEN_Y_COORD_PREFIX_def slice_def scalar32_def
      eval_bytes group_decode_def js_index_def)

theorem isValidTapscript_propagates_parse_errors_witness:
  "isValidTapscript sample_lib [[], 0xc0 # scalar32 5] (scalar32 1) =
     Inl (Error ''tapscript is not a valid script'') \<and>
   isValidTapscript sample_lib [[0x51], replicate 66 0] (scalar32 1) =
     Inl (Error ''invalid control block length'') \<and>
   isValidTapscript sample_lib [[0x51], 0xc0 # scalar32 0] (scalar32 1) =
     Inl (Error ''internal pubkey is not an EC point'') \<and>
   isValidTapscript sample_lib [[0x51], 0x50 # scalar32 5] (scalar32 1) =
     Inl (Error ''invalid leaf version'') \<and>
   isScriptPathSpend sample_lib [[0x51], replicate 66 0] = False"
proof -
  note main = isValidTapscript_propagates_parse_errors
  have d1: "bscript_decompile sample_lib (Some []) = Inr (Some [])"
    by (simp add: sample_lib_sel sample_parse_empty)
  have d2: "bscript_decompile sample_lib (Some [0x51]) = Inr (Some [Op 81])"
    by (simp add: sample_lib_sel sample_parse_op)
  have c1: "isValidTapscript sample_lib [[], 0xc0 # scalar32 5] (scalar32 1) =
     Inl (Error ''tapscript is not a valid script'')"
    using main [of sample_lib "[]" "scalar32 1" "[]" "0xc0 # scalar32 5"] d1 by simp
  have c2: "isValidTapscript sample_lib [[0x51], replicate 66 0] (scalar32 1) =
     Inl (Error ''invalid control block length'')"
    using main [of sample_lib "[]" "scalar32 1" "[0x51]" "replicate 66 0"] d2 by simp
  have c3: "isValidTapscript sample_lib [[0x51], 0xc0 # scalar32 0] (scalar32 1) =
     Inl (Error ''internal pubkey is not an EC point'')"
    using main [of sample_lib "[]" "scalar32 1" "[0x51]" "0xc0 # scalar32 0"] d2 sample_not_point
    by (simp add: sample_lib_sel length_scalar32)
  have c4: "isValidTapscript sample_lib [[0x51], 0x50 # scalar32 5] (scalar32 1) =
     Inl (Error ''invalid leaf version'')"
    using main [of sample_lib "[]" "scalar32 1" "[0x51]" "0x50 # scalar32 5"] d2 sample_point
    by (simp add: sample_lib_sel length_scalar32)
  have "parseTaprootWitness sample_lib [[0x51], replicate 66 0] =
        Inl (Error ''invalid control block length'')"
    using d2 by (simp add: parse_two ebind_def)
  then have c5: "isScriptPathSpend sample_lib [[0x51], replicate 66 0] = False"
    using main [of sample_lib "[[0x51], replicate 66 0]" "scalar32 1" "[]" "[]"] by simp
  from c1 c2 c3 c4 c5 show ?thesis by simp
qed


section \<open>Properties of getHuffmanTaptree\<close>

lemma weight_or_1_zero: "weight_or_1 [Some 0] 0 = 1"
  by (simp add: weight_or_1_def js_index_def)

lemma fillQueue_negative:
  "js_index weights (int index) = Some (Some w) \<Longrightarrow> w < 0 \<Longrightarrow>
   fillQueue L weights index (script # rest) queue =
     Inl (AssertionError ''script weight must be a positive value'')"
  by (simp add: weight_or_1_def)

text \<open>
  C5 at the failing input: one script with the supplied weight \<open>0\<close>. The assertion on
  the weight does not fail, because \<open>weights[index] || 1\<close> has already replaced the
  \<open>0\<close> by \<open>1\<close>; the call returns the tree of the single leaf. A negative weight and
  an empty list of scripts do fail their assertions.
\<close>

theorem getHuffmanTaptree_accepts_zero_weight:
  "getHuffmanTaptree L [script] [Some 0] =
     Inr \<lparr>root = hashTapLeaf L script, tree_paths = [Some []]\<rparr> \<and>
   getHuffmanTaptree L [script] [Some (- 1)] =
     Inl (AssertionError ''script weight must be a positive value'') \<and>
   getHuffmanTaptree L [] weights =
     Inl (AssertionError ''at least one script is required to construct a tap tree'')"
  by (simp add: getHuffmanTaptree_def weight_or_1_def js_index_def ebind_def queue_add_def
      queue_poll_def)

theorem getHuffmanTaptree_accepts_zero_weight_witness:
  "getHuffmanTaptree sample_lib [[0x51]] [Some 0] =
     Inr \<lparr>root = hashTapLeaf sample_lib [0x51], tree_paths = [Some []]\<rparr> \<and>
   getHuffmanTaptree sample_lib [[0x51]] [] =
     Inr \<lparr>root = hashTapLeaf sample_lib [0x51], tree_paths = [Some []]\<rparr>"
  using getHuffmanTaptree_accepts_zero_weight [of sample_lib "[0x51]" "[]"]
  by (simp add: getHuffmanTaptree_def weight_or_1_def js_index_def ebind_def queue_add_def
      queue_poll_def)


section \<open>Properties of p2ns\<close>

lemma outputChunks_first: "outputChunks (c # cs) \<noteq> [] \<and> js_index (outputChunks (c # cs)) 0 = Some c"
  by (cases cs) (simp_all add: js_index_def)




lemma sample_key_isPoint:
  "sample_isPoint (Data (0x02 # scalar32 5))"
  "sample_isPoint (Data (0x02 # scalar32 9))"
  "sample_isPoint (Data (0x02 # scalar32 11))"
  by (simp_all add: sample_isPoint_def scalar32_def eval_bytes group_decode_def js_index_def)




lemma validateOutput_buffer_first:
  "bscript_decompile L (Some out) = Inr (Some (Data k # cs)) \<Longrightarrow>
   validateOutput L a out = Inl (TypeError ''Output is invalid'')"
  by (simp add: validateOutput_def decode_def ebind_def isNumber_def js_index_def)

lemma outputChunks_Cons:
  "\<exists>cs. outputChunks (c # rest) = c # cs"
  by (cases rest) simp_all

text \<open>
  C7 at the failing input. For keys that pass \<open>ecc.isPoint\<close> and a script codec that
  decompiles the compiled output script back to its chunks: the payment built from the
  keys has the derived \<open>output\<close>, and the payment built from that output alone, with
  validation on, throws \<open>Output is invalid\<close>. The validation tests
  \<open>typef.Number(chunks[0])\<close>, and the first chunk of a p2ns output is the first key, a
  Buffer.
\<close>

theorem p2ns_rejects_its_own_output:
  "list_all (ecc_isPoint L) (Data k # rest) \<Longrightarrow>
   bscript_decompile L (Some (bscript_compile L (outputChunks (Data k # rest)))) =
     Inr (Some (outputChunks (Data k # rest))) \<Longrightarrow>
   validate opts \<noteq> Some False \<Longrightarrow>
   p2ns L (noPayment\<lparr>a_pubkeys := Some (Data k # rest)\<rparr>) opts =
     Inr (paymentObject L (noPayment\<lparr>a_pubkeys := Some (Data k # rest)\<rparr>)) \<and>
   o_output (paymentObject L (noPayment\<lparr>a_pubkeys := Some (Data k # rest)\<rparr>)) =
     Some (bscript_compile L (outputChunks (Data k # rest))) \<and>
   p2ns L (noPayment\<lparr>a_output := Some (bscript_compile L (outputChunks (Data k # rest)))\<rparr>) opts =
     Inl (TypeError ''Output is invalid'')"
proof (intro conjI)
  assume keys: "list_all (ecc_isPoint L) (Data k # rest)"
    and v: "validate opts \<noteq> Some False"
  from keys v
  show "p2ns L (noPayment\<lparr>a_pubkeys := Some (Data k # rest)\<rparr>) opts =
     Inr (paymentObject L (noPayment\<lparr>a_pubkeys := Some (Data k # rest)\<rparr>))"
    by (simp add: p2ns_def typef_def ebind_def noPayment_def)
next
  show "o_output (paymentObject L (noPayment\<lparr>a_pubkeys := Some (Data k # rest)\<rparr>)) =
     Some (bscript_compile L (outputChunks (Data k # rest)))"
    by (simp add: paymentObject_def read_output_def noPayment_def)
next
  let ?out = "bscript_compile L (outputChunks (Data k # rest))"
  assume rt: "bscript_decompile L (Some ?out) = Inr (Some (outputChunks (Data k # rest)))"
    and v: "validate opts \<noteq> Some False"
  obtain cs where "outputChunks (Data k # rest) = Data k # cs"
    using outputChunks_Cons by blast
  with rt have "validateOutput L (noPayment\<lparr>a_output := Some ?out\<rparr>) ?out =
      Inl (TypeError ''Output is invalid'')"
    by (simp add: validateOutput_buffer_first)
  with v show "p2ns L (noPayment\<lparr>a_output := Some ?out\<rparr>) opts =
     Inl (TypeError ''Output is invalid'')"
    by (simp add: p2ns_def typef_def ebind_def noPayment_def)
qed

lemma sample_parse_compile:
  "list_all (\<lambda>c. case c of Op k \<Rightarrow> (k = 0 \<or> 75 < k) \<and> k < 256
                        | Data b \<Rightarrow> 1 \<le> length b \<and> length b \<le> 75) cs \<Longrightarrow>
   sample_parse (sample_compile cs) = Some cs"
proof (induction cs)
  case Nil
  then show ?case by simp
next
  case (Cons c cs)
  then have IH: "sample_parse (sample_compile cs) = Some cs" by simp
  show ?case
  proof (cases c)
    case (Op k)
    with Cons.prems have k: "(k = 0 \<or> 75 < k) \<and> k < 256" by simp
    then have "unat (of_nat k :: byte) = k"
      by (simp add: unat_of_nat)
    with k Op IH show ?thesis by auto
  next
    case (Data b)
    with Cons.prems have b: "1 \<le> length b \<and> length b \<le> 75" by simp
    then have "unat (of_nat (length b) :: byte) = length b"
      by (simp add: unat_of_nat)
    with b Data IH show ?thesis by simp
  qed
qed

theorem p2ns_rejects_its_own_output_witness:
  "p2ns sample_lib
     (noPayment\<lparr>a_pubkeys := Some [Data (0x02 # scalar32 5), Data (0x02 # scalar32 9),
                                    Data (0x02 # scalar32 11)]\<rparr>) noOpts =
     Inr (paymentObject sample_lib
       (noPayment\<lparr>a_pubkeys := Some [Data (0x02 # scalar32 5), Data (0x02 # scalar32 9),
                                      Data (0x02 # scalar32 11)]\<rparr>)) \<and>
   o_output (paymentObject sample_lib
       (noPayment\<lparr>a_pubkeys := Some [Data (0x02 # scalar32 5), Data (0x02 # scalar32 9),
                                      Data (0x02 # scalar32 11)]\<rparr>)) =
     Some (sample_compile [Data (0x02 # scalar32 5), Op OP_CHECKSIGVERIFY,
                           Data (0x02 # scalar32 9), Op OP_CHECKSIGVERIFY,
                           Data (0x02 # scalar32 11), Op OP_CHECKSIG]) \<and>
   p2ns sample_lib
     (noPayment\<lparr>a_output :=
        Some (sample_compile [Data (0x02 # scalar32 5), Op OP_CHECKSIGVERIFY,
                              Data (0x02 # scalar32 9), Op OP_CHECKSIGVERIFY,
                              Data (0x02 # scalar32 11), Op OP_CHECKSIG])\<rparr>) noOpts =
     Inl (TypeError ''Output is invalid'')"
proof -
  let ?pks = "[Data (0x02 # scalar32 5), Data (0x02 # scalar32 9), Data (0x02 # scalar32 11)]"
  have chunks: "outputChunks ?pks =
      [Data (0x02 # scalar32 5), Op OP_CHECKSIGVERIFY, Data (0x02 # scalar32 9),
       Op OP_CHECKSIGVERIFY, Data (0x02 # scalar32 11), Op OP_CHECKSIG]"
    by simp
  have keys: "list_all (ecc_isPoint sample_lib) ?pks"
    by (simp add: sample_lib_sel sample_key_isPoint)
  have "sample_parse (sample_compile (outputChunks ?pks)) = Some (outputChunks ?pks)"
    by (rule sample_parse_compile)
       (simp add: length_scalar32 OP_CHECKSIG_def OP_CHECKSIGVERIFY_def)
  then have rt: "bscript_decompile sample_lib (Some (bscript_compile sample_lib (outputChunks ?pks))) =
      Inr (Some (outputChunks ?pks))"
    by (simp add: sample_lib_sel sample_decompile_def)
  have v: "validate noOpts \<noteq> Some False"
    by (simp add: noOpts_def)
  from p2ns_rejects_its_own_output [OF keys rt v] show ?thesis
    unfolding chunks by (simp add: sample_lib_sel)
qed


section \<open>Buffers as numbers\<close>

lemma fromBuffer_snoc: "fromBuffer (xs @ [b]) = fromBuffer xs * 256 + uint b"
  by (simp add: fromBuffer_def)

lemma fromBuffer_bounds: "0 \<le> fromBuffer xs \<and> fromBuffer xs < 256 ^ length xs"
proof (induction xs rule: rev_induct)
  case Nil
  then show ?case by (simp add: fromBuffer_def)
next
  case (snoc b xs)
  have b: "0 \<le> uint b \<and> uint b < 256"
    using uint_lt2p [of b] by simp
  from snoc have "fromBuffer xs + 1 \<le> 256 ^ length xs" by simp
  then have "(fromBuffer xs + 1) * 256 \<le> 256 ^ length xs * 256"
    by (rule mult_right_mono) simp
  with snoc b show ?case
    by (simp add: fromBuffer_snoc algebra_simps)
qed

lemma fromBuffer_Cons:
  "fromBuffer (x # xs) = uint x * 256 ^ length xs + fromBuffer xs"
proof (induction xs arbitrary: x rule: rev_induct)
  case Nil
  then show ?case by (simp add: fromBuffer_def)
next
  case (snoc b xs)
  have "fromBuffer (x # xs @ [b]) = fromBuffer ((x # xs) @ [b])" by simp
  also have "\<dots> = fromBuffer (x # xs) * 256 + uint b"
    by (rule fromBuffer_snoc)
  finally show ?case
    by (simp add: snoc fromBuffer_snoc algebra_simps)
qed

lemma Buffer_compare_numeric:
  "length a = length b \<Longrightarrow>
   (Buffer_compare a b < 0) = (fromBuffer a < fromBuffer b) \<and>
   (Buffer_compare a b = 0) = (fromBuffer a = fromBuffer b)"
proof (induction a b rule: Buffer_compare.induct)
  case 1
  then show ?case by simp
next
  case (2 y ys)
  then show ?case by simp
next
  case (3 x xs)
  then show ?case by simp
next
  case (4 x xs y ys)
  then have len: "length xs = length ys" by simp
  have bx: "0 \<le> fromBuffer xs \<and> fromBuffer xs < 256 ^ length ys"
    using fromBuffer_bounds [of xs] len by simp
  have by': "0 \<le> fromBuffer ys \<and> fromBuffer ys < 256 ^ length ys"
    using fromBuffer_bounds [of ys] by simp
  show ?case
  proof (cases "x < y")
    case True
    then have "uint x + 1 \<le> uint y"
      by (simp add: word_less_def)
    then have "(uint x + 1) * 256 ^ length ys \<le> uint y * 256 ^ length ys"
      by (rule mult_right_mono) simp
    with bx by' have "fromBuffer (x # xs) < fromBuffer (y # ys)"
      by (simp add: fromBuffer_Cons len algebra_simps)
    with True show ?thesis by simp
  next
    case False
    note nlt = this
    show ?thesis
    proof (cases "y < x")
      case True
      then have "uint y + 1 \<le> uint x"
        by (simp add: word_less_def)
      then have "(uint y + 1) * 256 ^ length ys \<le> uint x * 256 ^ length ys"
        by (rule mult_right_mono) simp
      with bx by' have "fromBuffer (y # ys) < fromBuffer (x # xs)"
        by (simp add: fromBuffer_Cons len algebra_simps)
      with True nlt show ?thesis by simp
    next
      case False
      with nlt have "x = y" by simp
      with nlt 4 len show ?thesis
        by (simp add: fromBuffer_Cons)
    qed
  qed
qed

lemma fromBuffer_EC_GROUP_ORDER: "fromBuffer EC_GROUP_ORDER = GROUP_ORDER"
  by (simp add: EC_GROUP_ORDER_def GROUP_ORDER_def fromBuffer_def)

lemma fromBuffer_EC_P: "fromBuffer EC_P = FIELD_PRIME"
  by (simp add: EC_P_def FIELD_PRIME_def fromBuffer_def)

lemma fromBuffer_ZERO32: "fromBuffer ZERO32 = 0"
  by (simp add: ZERO32_def fromBuffer_def replicate_numeral)

lemma length_constants:
  "length EC_GROUP_ORDER = 32" "length EC_P = 32" "length ZERO32 = 32"
  by (simp_all add: EC_GROUP_ORDER_def EC_P_def ZERO32_def)

text \<open>The byte comparisons of the source, as comparisons of numbers.\<close>

lemma isPrivate_numeric:
  "isPrivate x = (length x = 32 \<and> 0 < fromBuffer x \<and> fromBuffer x < GROUP_ORDER)"
proof (cases "length x = 32")
  case True
  then have "(Buffer_compare x EC_GROUP_ORDER < 0) = (fromBuffer x < GROUP_ORDER)"
    using Buffer_compare_numeric [of x EC_GROUP_ORDER]
    by (simp add: length_constants fromBuffer_EC_GROUP_ORDER)
  moreover have "(Buffer_compare x ZERO32 > 0) = (0 < fromBuffer x)"
  proof -
    from True have "length x = length ZERO32" by (simp add: length_constants)
    then have "(Buffer_compare x ZERO32 < 0) = (fromBuffer x < 0) \<and>
               (Buffer_compare x ZERO32 = 0) = (fromBuffer x = 0)"
      using Buffer_compare_numeric [of x ZERO32] by (simp add: fromBuffer_ZERO32)
    then show ?thesis
      using fromBuffer_bounds [of x] by auto
  qed
  ultimately show ?thesis using True by (simp add: isPrivate_def isScalar_def)
next
  case False
  then show ?thesis by (simp add: isPrivate_def isScalar_def)
qed

lemma isSignature_numeric:
  "isSignature v =
     (length v = 64 \<and> fromBuffer (take 32 v) < GROUP_ORDER \<and>
      fromBuffer (drop 32 v) < GROUP_ORDER)"
proof (cases "length v = 64")
  case True
  then have "length (slice 0 32 v) = length EC_GROUP_ORDER"
    and "length (slice 32 64 v) = length EC_GROUP_ORDER"
    by (simp_all add: slice_def length_constants)
  then have "(Buffer_compare (slice 0 32 v) EC_GROUP_ORDER < 0) =
             (fromBuffer (slice 0 32 v) < GROUP_ORDER)"
    and "(Buffer_compare (slice 32 64 v) EC_GROUP_ORDER < 0) =
         (fromBuffer (slice 32 64 v) < GROUP_ORDER)"
    using Buffer_compare_numeric [of "slice 0 32 v" EC_GROUP_ORDER]
      Buffer_compare_numeric [of "slice 32 64 v" EC_GROUP_ORDER]
    by (simp_all add: fromBuffer_EC_GROUP_ORDER)
  moreover from True have "slice 32 64 v = drop 32 v" "slice 0 32 v = take 32 v"
    by (simp_all add: slice_def)
  ultimately show ?thesis using True by (simp add: isSignature_def)
next
  case False
  then show ?thesis by (simp add: isSignature_def)
qed

lemma decodeXOnlyPoint_numeric:
  "decodeXOnlyPoint C q =
     (if length q = 32 \<and> fromBuffer q < FIELD_PRIME
      then curve_pointFromX C (fromBuffer q) False
      else Inl (Error ''invalid pubkey''))"
proof (cases "length q = 32")
  case True
  then have "length q = length EC_P" by (simp add: length_constants)
  then have "(Buffer_compare q EC_P < 0) = (fromBuffer q < FIELD_PRIME)"
    using Buffer_compare_numeric [of q EC_P] by (simp add: fromBuffer_EC_P)
  with True show ?thesis
    by (auto simp add: decodeXOnlyPoint_def)
next
  case False
  then show ?thesis by (simp add: decodeXOnlyPoint_def)
qed


section \<open>Properties of verifySchnorr\<close>

lemma verifySchnorr_checks:
  "verifySchnorr C hash q signature =
     (if length hash \<noteq> 32 then Inl (TypeError ''Expected Hash'')
      else if \<not> isXOnlyPoint C q then Inl (TypeError ''Expected Point'')
      else if \<not> isSignature signature then Inl (TypeError ''Expected Signature'')
      else verifySchnorr C hash q signature)"
  by (simp add: verifySchnorr_def isScalar_def THROW_BAD_HASH_def THROW_BAD_POINT_def
      THROW_BAD_SIGNATURE_def)

lemma verifySchnorr_returns:
  "(\<exists>b. verifySchnorr C hash q signature = Inr b) =
   (length hash = 32 \<and> isXOnlyPoint C q \<and> isSignature signature)"
proof (cases "decodeXOnlyPoint C q")
  case (Inl e)
  then show ?thesis
    by (simp add: verifySchnorr_def isXOnlyPoint_def isScalar_def)
next
  case (Inr P)
  then show ?thesis
    by (simp add: verifySchnorr_def isXOnlyPoint_def isScalar_def ebind_def Let_def)
qed

text \<open>
  C2, the claim as stated fails: \<open>verifySchnorr\<close> throws a TypeError on a hash that is
  not 32 bytes and on a key that is not 32 bytes, with every implementation of the
  curve, and on a signature of the wrong length or with a half that is not below the
  group order (here with a key that is a point of the small curve).
\<close>

theorem verifySchnorr_throws:
  "(\<forall>C q signature. verifySchnorr C [] q signature = Inl (TypeError ''Expected Hash'')) \<and>
   (\<forall>C signature.
      verifySchnorr C (scalar32 3) [] signature = Inl (TypeError ''Expected Point'')) \<and>
   verifySchnorr tiny_curve (scalar32 3) (scalar32 7) [] =
     Inl (TypeError ''Expected Signature'') \<and>
   verifySchnorr tiny_curve (scalar32 3) (scalar32 7) (scalar32 20 @ EC_GROUP_ORDER) =
     Inl (TypeError ''Expected Signature'')"
proof (intro conjI allI)
  fix C q signature
  show "verifySchnorr C [] q signature = Inl (TypeError ''Expected Hash'')"
    by (subst verifySchnorr_checks) simp
  show "verifySchnorr C (scalar32 3) [] signature = Inl (TypeError ''Expected Point'')"
    by (subst verifySchnorr_checks)
       (simp add: length_scalar32 isXOnlyPoint_def decodeXOnlyPoint_def)
next
  have pt: "isXOnlyPoint tiny_curve (scalar32 7)"
    by (simp add: isXOnlyPoint_def decodeXOnlyPoint_numeric length_scalar32 tiny_curve_sel
        fromBuffer_scalar32 FIELD_PRIME_def ec_pointFromX_def)
  show "verifySchnorr tiny_curve (scalar32 3) (scalar32 7) [] =
     Inl (TypeError ''Expected Signature'')"
    using pt by (subst verifySchnorr_checks) (simp add: length_scalar32 isSignature_def)
  have "\<not> isSignature (scalar32 20 @ EC_GROUP_ORDER)"
    by (simp add: isSignature_numeric length_scalar32 length_constants
        fromBuffer_EC_GROUP_ORDER)
  with pt show "verifySchnorr tiny_curve (scalar32 3) (scalar32 7) (scalar32 20 @ EC_GROUP_ORDER) =
     Inl (TypeError ''Expected Signature'')"
    by (subst verifySchnorr_checks) (simp add: length_scalar32)
qed


lemma isXOnlyPoint_numeric:
  "isXOnlyPoint C q =
     (length q = 32 \<and> fromBuffer q < FIELD_PRIME \<and>
      (\<exists>P. curve_pointFromX C (fromBuffer q) False = Inr P))"
  by (cases "curve_pointFromX C (fromBuffer q) False")
     (simp_all add: isXOnlyPoint_def decodeXOnlyPoint_numeric)

text \<open>
  C2, amended: \<open>verifySchnorr\<close> throws a TypeError for a malformed argument, in this
  order: \<open>Expected Hash\<close> when the hash is not 32 bytes, \<open>Expected Point\<close> when the
  key is not 32 bytes, is not below the field prime or is the x-coordinate of no point,
  \<open>Expected Signature\<close> when the signature is not 64 bytes or one of its halves is
  not below the group order. It returns a boolean exactly when the three arguments are
  well formed.
\<close>

theorem verifySchnorr_result:
  "verifySchnorr C hash q signature =
     (if length hash \<noteq> 32 then Inl (TypeError ''Expected Hash'')
      else if \<not> (length q = 32 \<and> fromBuffer q < FIELD_PRIME \<and>
                  (\<exists>P. curve_pointFromX C (fromBuffer q) False = Inr P))
      then Inl (TypeError ''Expected Point'')
      else if \<not> (length signature = 64 \<and> fromBuffer (take 32 signature) < GROUP_ORDER \<and>
                  fromBuffer (drop 32 signature) < GROUP_ORDER)
      then Inl (TypeError ''Expected Signature'')
      else verifySchnorr C hash q signature) \<and>
   (\<exists>b. verifySchnorr C hash q signature = Inr b) =
     (length hash = 32 \<and>
      (length q = 32 \<and> fromBuffer q < FIELD_PRIME \<and>
       (\<exists>P. curve_pointFromX C (fromBuffer q) False = Inr P)) \<and>
      (length signature = 64 \<and> fromBuffer (take 32 signature) < GROUP_ORDER \<and>
       fromBuffer (drop 32 signature) < GROUP_ORDER))"
proof
  show "verifySchnorr C hash q signature =
     (if length hash \<noteq> 32 then Inl (TypeError ''Expected Hash'')
      else if \<not> (length q = 32 \<and> fromBuffer q < FIELD_PRIME \<and>
                  (\<exists>P. curve_pointFromX C (fromBuffer q) False = Inr P))
      then Inl (TypeError ''Expected Point'')
      else if \<not> (length signature = 64 \<and> fromBuffer (take 32 signature) < GROUP_ORDER \<and>
                  fromBuffer (drop 32 signature) < GROUP_ORDER)
      then Inl (TypeError ''Expected Signature'')
      else verifySchnorr C hash q signature)"
    unfolding isXOnlyPoint_numeric [symmetric] isSignature_numeric [symmetric]
    by (rule verifySchnorr_checks)
next
  show "(\<exists>b. verifySchnorr C hash q signature = Inr b) =
     (length hash = 32 \<and>
      (length q = 32 \<and> fromBuffer q < FIELD_PRIME \<and>
       (\<exists>P. curve_pointFromX C (fromBuffer q) False = Inr P)) \<and>
      (length signature = 64 \<and> fromBuffer (take 32 signature) < GROUP_ORDER \<and>
       fromBuffer (drop 32 signature) < GROUP_ORDER))"
    unfolding isXOnlyPoint_numeric [symmetric] isSignature_numeric [symmetric]
    by (rule verifySchnorr_returns)
qed

section \<open>Signing and verifying on the small curve\<close>

lemma tiny_lift: "ec_pointFromX 43 7 False = Inr (Point 7 36)"
  by (simp add: ec_pointFromX_def)

lemma tiny_decode: "decodeXOnlyPoint tiny_curve (scalar32 7) = Inr (Point 7 36)"
  by (simp add: decodeXOnlyPoint_numeric length_scalar32 fromBuffer_scalar32 FIELD_PRIME_def
      tiny_curve_sel tiny_lift)

lemma tiny_isXOnlyPoint: "isXOnlyPoint tiny_curve (scalar32 7)"
  by (simp add: isXOnlyPoint_def tiny_decode)

lemma tiny_isSignature: "isSignature (scalar32 20 @ scalar32 26)"
  by (simp add: isSignature_numeric length_scalar32 fromBuffer_scalar32 GROUP_ORDER_def)

lemma tiny_challenge:
  "taggedHash toy_sha256 ''BIP0340/challenge'' (scalar32 20 @ scalar32 7 @ scalar32 3) =
   scalar32 850363"
  by (simp add: eval_bytes scalar32_def)

lemma tiny_sG: "ec_mul 43 (Point 2 31) 26 = Point 12 12"
  by (simp add: ec_mul_pos ec_mul_0 fe_inv_def)

lemma tiny_eP: "ec_mul 43 (Point 7 36) 29 = Point 21 18"
  by (simp add: ec_mul_pos ec_mul_0 fe_inv_def)

lemma tiny_verify:
  "verifySchnorr tiny_curve (scalar32 3) (scalar32 7) (scalar32 20 @ scalar32 26) = Inr True"
  by (simp add: verifySchnorr_def isScalar_def length_scalar32 tiny_isXOnlyPoint
      tiny_isSignature tiny_decode ebind_def slice_def tiny_curve_sel tiny_challenge
      fromBuffer_scalar32 bn_mod_def tiny_sG tiny_eP fe_inv_def isInfinity_def hasEvenY_def
      getX_def)

theorem verifySchnorr_result_witness:
  "verifySchnorr tiny_curve (scalar32 3) (scalar32 7) (scalar32 20 @ scalar32 26) = Inr True \<and>
   verifySchnorr tiny_curve (scalar32 3) (scalar32 7) (scalar32 20 @ scalar32 GROUP_ORDER) =
     Inl (TypeError ''Expected Signature'') \<and>
   verifySchnorr tiny_curve (scalar32 3) (scalar32 FIELD_PRIME) (scalar32 20 @ scalar32 26) =
     Inl (TypeError ''Expected Point'') \<and>
   verifySchnorr tiny_curve (scalar32 3) (scalar32 1) (scalar32 20 @ scalar32 26) =
     Inl (TypeError ''Expected Point'') \<and>
   verifySchnorr tiny_curve [0x03] (scalar32 7) (scalar32 20 @ scalar32 26) =
     Inl (TypeError ''Expected Hash'')"
proof -
  note main = verifySchnorr_result
  have go: "fromBuffer (scalar32 GROUP_ORDER) = GROUP_ORDER"
    by (rule fromBuffer_scalar32) (simp_all add: GROUP_ORDER_def)
  have fp: "fromBuffer (scalar32 FIELD_PRIME) = FIELD_PRIME"
    by (rule fromBuffer_scalar32) (simp_all add: FIELD_PRIME_def)
  have no1: "ec_pointFromX 43 1 False = Inl (Error ''invalid point'')"
    by (simp add: ec_pointFromX_def)
  have c2: "verifySchnorr tiny_curve (scalar32 3) (scalar32 7) (scalar32 20 @ scalar32 GROUP_ORDER) =
     Inl (TypeError ''Expected Signature'')"
    using main [of tiny_curve "scalar32 3" "scalar32 7" "scalar32 20 @ scalar32 GROUP_ORDER"]
    by (simp add: length_scalar32 fromBuffer_scalar32 FIELD_PRIME_def tiny_curve_sel tiny_lift go)
  have c3: "verifySchnorr tiny_curve (scalar32 3) (scalar32 FIELD_PRIME) (scalar32 20 @ scalar32 26) =
     Inl (TypeError ''Expected Point'')"
    using main [of tiny_curve "scalar32 3" "scalar32 FIELD_PRIME" "scalar32 20 @ scalar32 26"]
    by (simp add: length_scalar32 fp)
  have c4: "verifySchnorr tiny_curve (scalar32 3) (scalar32 1) (scalar32 20 @ scalar32 26) =
     Inl (TypeError ''Expected Point'')"
    using main [of tiny_curve "scalar32 3" "scalar32 1" "scalar32 20 @ scalar32 26"]
    by (simp add: length_scalar32 fromBuffer_scalar32 tiny_curve_sel no1)
  have c5: "verifySchnorr tiny_curve [0x03] (scalar32 7) (scalar32 20 @ scalar32 26) =
     Inl (TypeError ''Expected Hash'')"
    using main [of tiny_curve "[0x03]" "scalar32 7" "scalar32 20 @ scalar32 26"]
    by simp
  from tiny_verify c2 c3 c4 c5 show ?thesis by simp
qed


end
